theory Spec2Isabelle
  imports Main
begin

section \<open>Board items\<close>

text \<open>
  The board editor works on C++ objects that refer to each other by pointer. The
  embedding keeps every object in a list owned by the board and replaces a pointer by
  the uuid of the object it points to; a null pointer is \<open>None\<close>.
\<close>

type_synonym uuid = nat
type_synonym Length = int
type_synonym Point = "Length \<times> Length"
type_synonym GraphicsLayerName = string
type_synonym NetSignal = nat

text \<open>
  Exceptions. Every throw of \<^verbatim>\<open>cmdplaceboardnetpoint.cpp\<close> is a \<^verbatim>\<open>RuntimeError\<close>
  with a message. \<open>NoReturnValue\<close> stands for control reaching the closing brace of a
  value-returning function without a \<^verbatim>\<open>return\<close>, which C++ leaves undefined; the
  embedding stops there. \<open>NetSignalMismatch\<close>, \<open>InvalidPrecondition\<close> and
  \<open>InvariantViolation\<close> are the error kinds the specification names for the parts
  whose code is not available.
\<close>

datatype error =
    RuntimeError string
  | NoReturnValue
  | NetSignalMismatch
  | InvalidPrecondition
  | InvariantViolation

abbreviation NotImplemented :: error where
  "NotImplemented \<equiv> RuntimeError ''Sorry, not yet implemented...''"

abbreviation UnconnectedPad :: error where
  "UnconnectedPad \<equiv> RuntimeError ''The pin is not connected to any net.''"

abbreviation NothingAtPosition :: error where
  "NothingAtPosition \<equiv> RuntimeError ''No trace, via or pad at cursor position.''"

abbreviation NoNetSignal :: error where
  "NoNetSignal \<equiv> RuntimeError ''The via is not connected to any net.''"

text \<open>
  Modelled from the spec: the classes of the board items, whose declarations are not
  available. A via has a position and may have a net signal
  (\<^verbatim>\<open>via->getNetSignal()\<close> can be null). A footprint pad has a position, the layers it is
  on, and the net signal of its component signal, if that is connected
  (\<^verbatim>\<open>pad->getCompSigInstNetSignal()\<close> can be null). A net segment is bound to one net
  signal.
\<close>

record BI_Via =
  via_uuid :: uuid
  via_position :: Point
  via_netsignal :: "NetSignal option"

record BI_FootprintPad =
  pad_uuid :: uuid
  pad_position :: Point
  pad_layers :: "GraphicsLayerName list"
  pad_netsignal :: "NetSignal option"

record BI_NetSegment =
  seg_uuid :: uuid
  seg_netsignal :: NetSignal

text \<open>
  Modelled from the spec: the classes of net points and net lines, whose declarations are
  not available. A net point is what \<^verbatim>\<open>cmdboardnetpointadd.h\<close> builds one from: a layer,
  a position, and the pad or the via it is attached to (both null for a free point); it
  belongs to a net segment. A net line joins two net points of one net segment and has a
  width. The board owns all of them.
\<close>

record BI_NetPoint =
  np_uuid :: uuid
  np_netsegment :: uuid
  np_layer :: GraphicsLayerName
  np_position :: Point
  np_pad :: "uuid option"
  np_via :: "uuid option"

record BI_NetLine =
  nl_uuid :: uuid
  nl_netsegment :: uuid
  nl_startpoint :: uuid
  nl_endpoint :: uuid
  nl_width :: Length

record Board =
  vias :: "BI_Via list"
  pads :: "BI_FootprintPad list"
  netsegments :: "BI_NetSegment list"
  netpoints :: "BI_NetPoint list"
  netlines :: "BI_NetLine list"

text \<open>
  Modelled from the spec: the structural comparison of two boards: the same set of net
  segments, net points and net lines with the same attributes. Vias and pads are never
  touched by the commands below.
\<close>

definition same_graph :: "Board \<Rightarrow> Board \<Rightarrow> bool" where
  "same_graph b b' \<longleftrightarrow>
     vias b = vias b' \<and> pads b = pads b' \<and>
     set (netsegments b) = set (netsegments b') \<and>
     set (netpoints b) = set (netpoints b') \<and>
     set (netlines b) = set (netlines b')"

text \<open>Every object of a kind has its own uuid.\<close>

definition wf_board :: "Board \<Rightarrow> bool" where
  "wf_board b \<longleftrightarrow>
     distinct (map seg_uuid (netsegments b)) \<and>
     distinct (map np_uuid (netpoints b)) \<and>
     distinct (map nl_uuid (netlines b))"

text \<open>
  A newly constructed object is an object of its own: its uuid is one that no object of
  its kind on the board has.
\<close>

definition fresh_uuid :: "uuid list \<Rightarrow> uuid" where
  "fresh_uuid us = Suc (foldr max us 0)"

subsection \<open>Queries of the board\<close>

text \<open>
  Modelled from the spec: \<^verbatim>\<open>Board::getNetPointsAtScenePos\<close>, whose code is not available:
  the net points that occupy exactly the position on the layer.
\<close>

definition getNetPointsAtScenePos :: "Board \<Rightarrow> Point \<Rightarrow> GraphicsLayerName \<Rightarrow> BI_NetPoint list" where
  "getNetPointsAtScenePos b pos layer =
     filter (\<lambda>p. np_position p = pos \<and> np_layer p = layer) (netpoints b)"

text \<open>
  Modelled from the spec: \<^verbatim>\<open>Board::getViasAtScenePos\<close>, whose code is not available: the
  vias at the position.
\<close>

definition getViasAtScenePos :: "Board \<Rightarrow> Point \<Rightarrow> BI_Via list" where
  "getViasAtScenePos b pos = filter (\<lambda>v. via_position v = pos) (vias b)"

text \<open>
  Modelled from the spec: \<^verbatim>\<open>Board::getPadsAtScenePos\<close>, whose code is not available: the
  pads at the position on the layer.
\<close>

definition getPadsAtScenePos :: "Board \<Rightarrow> Point \<Rightarrow> GraphicsLayerName \<Rightarrow> BI_FootprintPad list" where
  "getPadsAtScenePos b pos layer =
     filter (\<lambda>p. pad_position p = pos \<and> layer \<in> set (pad_layers p)) (pads b)"

text \<open>
  Following a pointer: the net point, or the net segment, with the given uuid. The net
  signal of a net segment is \<^verbatim>\<open>BI_NetSegment::getNetSignal\<close>.
\<close>

definition getNetPointByUuid :: "Board \<Rightarrow> uuid \<Rightarrow> BI_NetPoint option" where
  "getNetPointByUuid b u = find (\<lambda>p. np_uuid p = u) (netpoints b)"

definition getNetSegmentByUuid :: "Board \<Rightarrow> uuid \<Rightarrow> BI_NetSegment option" where
  "getNetSegmentByUuid b u = find (\<lambda>s. seg_uuid s = u) (netsegments b)"


text \<open>
  Modelled from the spec: what it is for a trace to pass through a position, which the
  source leaves to the graphics scene: the position lies on the straight line between the
  two end points.
\<close>

definition passes_through :: "Point \<Rightarrow> Point \<Rightarrow> Point \<Rightarrow> bool" where
  "passes_through a c pos \<longleftrightarrow>
     (fst c - fst a) * (snd pos - snd a) = (snd c - snd a) * (fst pos - fst a) \<and>
     min (fst a) (fst c) \<le> fst pos \<and> fst pos \<le> max (fst a) (fst c) \<and>
     min (snd a) (snd c) \<le> snd pos \<and> snd pos \<le> max (snd a) (snd c)"

text \<open>
  Modelled from the spec: the hit test of one net line, whose code is not available: the
  line is on the layer of its start point and passes through the position.
\<close>

definition netline_hit :: "Board \<Rightarrow> Point \<Rightarrow> GraphicsLayerName \<Rightarrow> BI_NetLine \<Rightarrow> bool" where
  "netline_hit b pos layer l =
     (case getNetPointByUuid b (nl_startpoint l) of
        None \<Rightarrow> False
      | Some s \<Rightarrow>
          (case getNetPointByUuid b (nl_endpoint l) of
             None \<Rightarrow> False
           | Some e \<Rightarrow> np_layer s = layer \<and> passes_through (np_position s) (np_position e) pos))"

text \<open>
  Modelled from the spec: \<^verbatim>\<open>Board::getNetLinesAtScenePos\<close>, whose code is not available:
  the net lines of the layer that pass through the position.
\<close>

definition getNetLinesAtScenePos :: "Board \<Rightarrow> Point \<Rightarrow> GraphicsLayerName \<Rightarrow> BI_NetLine list" where
  "getNetLinesAtScenePos b pos layer = filter (netline_hit b pos layer) (netlines b)"

text \<open>
  Modelled from the spec: \<^verbatim>\<open>BI_Via::getNetPointOfLayer\<close>, whose code is not available:
  the net point that the via exposes on the layer, or null.
\<close>

definition getNetPointOfLayer :: "Board \<Rightarrow> BI_Via \<Rightarrow> GraphicsLayerName \<Rightarrow> BI_NetPoint option" where
  "getNetPointOfLayer b via layer =
     find (\<lambda>p. np_via p = Some (via_uuid via) \<and> np_layer p = layer) (netpoints b)"

section \<open>Child commands\<close>

text \<open>
  Modelled from the spec: the single-element commands \<^verbatim>\<open>CmdBoardNetSegmentAdd\<close>,
  \<^verbatim>\<open>CmdBoardNetSegmentRemove\<close>, \<^verbatim>\<open>CmdBoardNetSegmentAddElements\<close> and
  \<^verbatim>\<open>CmdBoardNetSegmentRemoveElements\<close>, whose code is not available. Each holds the
  objects it adds or removes.
\<close>

datatype UndoCommand =
    CmdBoardNetSegmentAdd BI_NetSegment
  | CmdBoardNetSegmentRemove BI_NetSegment
  | CmdBoardNetSegmentAddElements uuid "BI_NetPoint list" "BI_NetLine list"
  | CmdBoardNetSegmentRemoveElements uuid "BI_NetPoint list" "BI_NetLine list"

text \<open>
  Modelled from the spec: \<^verbatim>\<open>Board::addNetSegment\<close>, whose code is not available: the
  board owns one more net segment.
\<close>

definition addNetSegment :: "BI_NetSegment \<Rightarrow> Board \<Rightarrow> Board" where
  "addNetSegment s b = b\<lparr>netsegments := netsegments b @ [s]\<rparr>"

text \<open>
  Modelled from the spec: \<^verbatim>\<open>Board::removeNetSegment\<close>, whose code is not available: the
  net segment, identified by its uuid, leaves the board.
\<close>

definition removeNetSegment :: "BI_NetSegment \<Rightarrow> Board \<Rightarrow> Board" where
  "removeNetSegment s b =
     b\<lparr>netsegments := filter (\<lambda>x. seg_uuid x \<noteq> seg_uuid s) (netsegments b)\<rparr>"

text \<open>
  Modelled from the spec: \<^verbatim>\<open>BI_NetSegment::addElements\<close>, whose code is not available: the
  net points and net lines are added.
\<close>

definition addElements :: "BI_NetPoint list \<Rightarrow> BI_NetLine list \<Rightarrow> Board \<Rightarrow> Board" where
  "addElements ps ls b = b\<lparr>netpoints := netpoints b @ ps, netlines := netlines b @ ls\<rparr>"

text \<open>
  Modelled from the spec: \<^verbatim>\<open>BI_NetSegment::removeElements\<close>, whose code is not available:
  the net points and net lines, identified by their uuids, are removed.
\<close>

definition removeElements :: "BI_NetPoint list \<Rightarrow> BI_NetLine list \<Rightarrow> Board \<Rightarrow> Board" where
  "removeElements ps ls b =
     b\<lparr>netpoints := filter (\<lambda>x. np_uuid x \<notin> set (map np_uuid ps)) (netpoints b),
       netlines := filter (\<lambda>x. nl_uuid x \<notin> set (map nl_uuid ls)) (netlines b)\<rparr>"

text \<open>
  Modelled from the spec: \<open>performExecute\<close> of the four child commands, whose code is not
  available: the mutation, and whether it is an observable change.
\<close>

fun UndoCommand_performExecute :: "UndoCommand \<Rightarrow> Board \<Rightarrow> bool \<times> Board" where
  "UndoCommand_performExecute (CmdBoardNetSegmentAdd s) b = (True, addNetSegment s b)"
| "UndoCommand_performExecute (CmdBoardNetSegmentRemove s) b = (True, removeNetSegment s b)"
| "UndoCommand_performExecute (CmdBoardNetSegmentAddElements seg ps ls) b =
     (ps \<noteq> [] \<or> ls \<noteq> [], addElements ps ls b)"
| "UndoCommand_performExecute (CmdBoardNetSegmentRemoveElements seg ps ls) b =
     (ps \<noteq> [] \<or> ls \<noteq> [], removeElements ps ls b)"

text \<open>
  Modelled from the spec: \<open>performUndo\<close> of the four child commands, whose code is not
  available: undoing an addition removes what was added, undoing a removal adds what was
  removed.
\<close>

fun UndoCommand_performUndo :: "UndoCommand \<Rightarrow> Board \<Rightarrow> Board" where
  "UndoCommand_performUndo (CmdBoardNetSegmentAdd s) b = removeNetSegment s b"
| "UndoCommand_performUndo (CmdBoardNetSegmentRemove s) b = addNetSegment s b"
| "UndoCommand_performUndo (CmdBoardNetSegmentAddElements seg ps ls) b = removeElements ps ls b"
| "UndoCommand_performUndo (CmdBoardNetSegmentRemoveElements seg ps ls) b = addElements ps ls b"

text \<open>
  The source marks every execution of a child command \<^verbatim>\<open>// can throw\<close>. The checks
  that make a child throw are in code that is not available, so they are a parameter:
  \<open>chk cmd b\<close> is the exception that executing \<open>cmd\<close> on board \<open>b\<close> raises, if any.
\<close>

type_synonym precondition = "UndoCommand \<Rightarrow> Board \<Rightarrow> error option"

text \<open>
  Modelled from the spec: \<^verbatim>\<open>UndoCommand::execute\<close> of a child command, whose code is not
  available: the command fails before it mutates anything, or it applies its mutation and
  reports whether that is an observable change.
\<close>

definition UndoCommand_execute :: "precondition \<Rightarrow> UndoCommand \<Rightarrow> Board \<Rightarrow> error + bool \<times> Board" where
  "UndoCommand_execute chk cmd b =
     (case chk cmd b of
        Some e \<Rightarrow> Inl e
      | None \<Rightarrow> Inr (UndoCommand_performExecute cmd b))"

section \<open>Command groups\<close>

text \<open>
  The state of a command group while it executes: the board and the children executed so
  far.
\<close>

type_synonym group_state = "Board \<times> UndoCommand list"

text \<open>
  Modelled from the spec: \<^verbatim>\<open>UndoCommandGroup::execNewChildCmd\<close>, whose code is not
  available: the child is executed and appended to the children; a child that fails is
  not appended, and one that reports no change is discarded.
\<close>

definition execNewChildCmd :: "precondition \<Rightarrow> UndoCommand \<Rightarrow> group_state \<Rightarrow> error + group_state" where
  "execNewChildCmd chk cmd st =
     (case UndoCommand_execute chk cmd (fst st) of
        Inl e \<Rightarrow> Inl e
      | Inr (changed, b') \<Rightarrow> Inr (b', if changed then snd st @ [cmd] else snd st))"

text \<open>
  Modelled from the spec: \<^verbatim>\<open>UndoCommandGroup::performUndo\<close>, whose code is not available:
  the children are undone in reverse order, the last one first.
\<close>

definition UndoCommandGroup_performUndo :: "UndoCommand list \<Rightarrow> Board \<Rightarrow> Board" where
  "UndoCommandGroup_performUndo childs b = fold UndoCommand_performUndo (rev childs) b"

section \<open>Placing a net point\<close>

text \<open>
  \<^verbatim>\<open>CmdPlaceBoardNetPoint\<close>: the position and layer given to the constructor, the net
  point found or created, and the children of the group. The board the command works on
  is passed as the state.
\<close>

record CmdPlaceBoardNetPoint =
  mPosition :: Point
  mLayer :: GraphicsLayerName
  mNetPoint :: "uuid option"
  mChilds :: "UndoCommand list"

definition CmdPlaceBoardNetPoint_new :: "Point \<Rightarrow> GraphicsLayerName \<Rightarrow> CmdPlaceBoardNetPoint" where
  "CmdPlaceBoardNetPoint_new pos layer =
     \<lparr>mPosition = pos, mLayer = layer, mNetPoint = None, mChilds = []\<rparr>"

text \<open>
  Modelled from the spec: the constructor of \<^verbatim>\<open>CmdBoardNetSegmentAdd\<close>, whose code is not
  available: the command holds a new net segment bound to the net signal.
\<close>

definition newNetSegment :: "Board \<Rightarrow> NetSignal \<Rightarrow> BI_NetSegment" where
  "newNetSegment b netsignal =
     \<lparr>seg_uuid = fresh_uuid (map seg_uuid (netsegments b)), seg_netsignal = netsignal\<rparr>"

text \<open>
  Modelled from the spec: \<^verbatim>\<open>CmdBoardNetSegmentAddElements::addNetPoint(layer, pad)\<close>, whose
  code is not available: a new net point of the segment on the layer, attached to the pad
  and at its position.
\<close>

definition newNetPointAtPad :: "Board \<Rightarrow> uuid \<Rightarrow> GraphicsLayerName \<Rightarrow> BI_FootprintPad \<Rightarrow> BI_NetPoint" where
  "newNetPointAtPad b seg layer pad =
     \<lparr>np_uuid = fresh_uuid (map np_uuid (netpoints b)), np_netsegment = seg, np_layer = layer,
      np_position = pad_position pad, np_pad = Some (pad_uuid pad), np_via = None\<rparr>"

text \<open>
  Modelled from the spec: \<^verbatim>\<open>CmdBoardNetSegmentAddElements::addNetPoint(layer, position)\<close>,
  whose code is not available: a new net point of the segment on the layer at the
  position, attached to nothing.
\<close>

definition newNetPointAtPosition :: "Board \<Rightarrow> uuid \<Rightarrow> GraphicsLayerName \<Rightarrow> Point \<Rightarrow> BI_NetPoint" where
  "newNetPointAtPosition b seg layer pos =
     \<lparr>np_uuid = fresh_uuid (map np_uuid (netpoints b)), np_netsegment = seg, np_layer = layer,
      np_position = pos, np_pad = None, np_via = None\<rparr>"

text \<open>
  Modelled from the spec: \<^verbatim>\<open>CmdBoardNetSegmentAddElements::addNetLine(p1, p2, width)\<close>,
  whose code is not available: a new net line of the segment between the two net points.
\<close>

definition newNetLine :: "uuid \<Rightarrow> uuid \<Rightarrow> uuid \<Rightarrow> uuid \<Rightarrow> Length \<Rightarrow> BI_NetLine" where
  "newNetLine u seg p1 p2 width =
     \<lparr>nl_uuid = u, nl_netsegment = seg, nl_startpoint = p1, nl_endpoint = p2, nl_width = width\<rparr>"

text \<open>The two children of a mid-trace split, as \<^verbatim>\<open>createNewNetPointInLine\<close> builds them.\<close>

definition cmdAddInLine :: "Board \<Rightarrow> Point \<Rightarrow> GraphicsLayerName \<Rightarrow> BI_NetLine \<Rightarrow> UndoCommand" where
  "cmdAddInLine b pos layer netline =
     (let netsegment = nl_netsegment netline;
          netpoint = newNetPointAtPosition b netsegment layer pos;
          u = fresh_uuid (map nl_uuid (netlines b))
      in CmdBoardNetSegmentAddElements netsegment [netpoint]
           [newNetLine u netsegment (np_uuid netpoint) (nl_startpoint netline) (nl_width netline),
            newNetLine (Suc u) netsegment (np_uuid netpoint) (nl_endpoint netline) (nl_width netline)])"

definition cmdRemoveInLine :: "BI_NetLine \<Rightarrow> UndoCommand" where
  "cmdRemoveInLine netline = CmdBoardNetSegmentRemoveElements (nl_netsegment netline) [] [netline]"

text \<open>The second child of a placement at a pad, as \<^verbatim>\<open>createNewNetPointAtPad\<close> builds it.\<close>

definition cmdAddAtPad :: "Board \<Rightarrow> BI_NetSegment \<Rightarrow> GraphicsLayerName \<Rightarrow> BI_FootprintPad \<Rightarrow> UndoCommand" where
  "cmdAddAtPad b netsegment layer pad =
     CmdBoardNetSegmentAddElements (seg_uuid netsegment)
       [newNetPointAtPad b (seg_uuid netsegment) layer pad] []"

text \<open>
  \<^verbatim>\<open>createNewNetSegment\<close>, \<^verbatim>\<open>createNewNetPointInLine\<close> and
  \<^verbatim>\<open>createNewNetPointAtPad\<close> of \<^verbatim>\<open>CmdPlaceBoardNetPoint\<close>. Each takes the state of
  the group and returns its result with the new state; an exception is returned with the
  state it was raised in.
\<close>

definition createNewNetSegment :: "precondition \<Rightarrow> NetSignal \<Rightarrow> group_state \<Rightarrow> (error + BI_NetSegment) \<times> group_state" where
  "createNewNetSegment chk netsignal st =
     (let netsegment = newNetSegment (fst st) netsignal in
      case execNewChildCmd chk (CmdBoardNetSegmentAdd netsegment) st of
        Inl e \<Rightarrow> (Inl e, st)
      | Inr st' \<Rightarrow> (Inr netsegment, st'))"

definition createNewNetPointInLine :: "precondition \<Rightarrow> Point \<Rightarrow> GraphicsLayerName \<Rightarrow> group_state \<Rightarrow> (error + uuid) \<times> group_state" where
  "createNewNetPointInLine chk pos layer st =
     (let linesUnderCursor = getNetLinesAtScenePos (fst st) pos layer in
      if length linesUnderCursor = 0 then (Inl NothingAtPosition, st)
      else if length linesUnderCursor = 1 then
        (let netline = hd linesUnderCursor;
             netpoint = newNetPointAtPosition (fst st) (nl_netsegment netline) layer pos
         in case execNewChildCmd chk (cmdAddInLine (fst st) pos layer netline) st of
              Inl e \<Rightarrow> (Inl e, st)
            | Inr st1 \<Rightarrow>
                (case execNewChildCmd chk (cmdRemoveInLine netline) st1 of
                   Inl e \<Rightarrow> (Inl e, st1)
                 | Inr st2 \<Rightarrow> (Inr (np_uuid netpoint), st2)))
      else (Inl NotImplemented, st))"

definition createNewNetPointAtPad :: "precondition \<Rightarrow> Point \<Rightarrow> GraphicsLayerName \<Rightarrow> group_state \<Rightarrow> (error + uuid) \<times> group_state" where
  "createNewNetPointAtPad chk pos layer st =
     (let padsUnderCursor = getPadsAtScenePos (fst st) pos layer in
      if length padsUnderCursor = 0 then createNewNetPointInLine chk pos layer st
      else if length padsUnderCursor = 1 then
        (let pad = hd padsUnderCursor in
         case pad_netsignal pad of
           None \<Rightarrow> (Inl UnconnectedPad, st)
         | Some netsignal \<Rightarrow>
             (case createNewNetSegment chk netsignal st of
                (Inl e, st1) \<Rightarrow> (Inl e, st1)
              | (Inr netsegment, st1) \<Rightarrow>
                  (let netpoint = newNetPointAtPad (fst st1) (seg_uuid netsegment) layer pad in
                   case execNewChildCmd chk (cmdAddAtPad (fst st1) netsegment layer pad) st1 of
                     Inl e \<Rightarrow> (Inl e, st1)
                   | Inr st2 \<Rightarrow> (Inr (np_uuid netpoint), st2))))
      else (Inl NotImplemented, st))"

text \<open>
  In \<^verbatim>\<open>createNewNetPoint\<close> the branch for a via without a net point on the layer holds
  only a comment (the creation of a point attached to the via, with its
  \<^verbatim>\<open>"The via is not connected to any net."\<close> error, is commented out), so control
  leaves the function without a \<^verbatim>\<open>return\<close>.
\<close>

definition createNewNetPoint :: "precondition \<Rightarrow> Point \<Rightarrow> GraphicsLayerName \<Rightarrow> group_state \<Rightarrow> (error + uuid) \<times> group_state" where
  "createNewNetPoint chk pos layer st =
     (let viasUnderCursor = getViasAtScenePos (fst st) pos in
      if length viasUnderCursor = 0 then createNewNetPointAtPad chk pos layer st
      else if length viasUnderCursor = 1 then
        (let via = hd viasUnderCursor in
         case getNetPointOfLayer (fst st) via layer of
           Some netpoint \<Rightarrow> (Inr (np_uuid netpoint), st)
         | None \<Rightarrow> (Inl NoReturnValue, st))
      else (Inl NotImplemented, st))"

text \<open>
  The part of \<^verbatim>\<open>performExecute\<close> between the construction of the scope guard and its
  dismissal.
\<close>

definition performExecute_body :: "precondition \<Rightarrow> CmdPlaceBoardNetPoint \<Rightarrow> Board \<Rightarrow> (error + uuid) \<times> group_state" where
  "performExecute_body chk cmd b =
     (let netpointsUnderCursor = getNetPointsAtScenePos b (mPosition cmd) (mLayer cmd) in
      if length netpointsUnderCursor = 0 then
        createNewNetPoint chk (mPosition cmd) (mLayer cmd) (b, mChilds cmd)
      else if length netpointsUnderCursor = 1 then
        (Inr (np_uuid (hd netpointsUnderCursor)), (b, mChilds cmd))
      else (Inl NotImplemented, (b, mChilds cmd)))"

text \<open>
  \<^verbatim>\<open>performExecute\<close>: the scope guard runs the group's \<open>performUndo\<close> on every exit
  but the successful one, where it is dismissed and the command reports whether it has
  children.
\<close>

definition CmdPlaceBoardNetPoint_performExecute :: "precondition \<Rightarrow> CmdPlaceBoardNetPoint \<Rightarrow> Board \<Rightarrow> (error + bool) \<times> Board \<times> CmdPlaceBoardNetPoint" where
  "CmdPlaceBoardNetPoint_performExecute chk cmd b =
     (case performExecute_body chk cmd b of
        (Inl e, (b1, childs)) \<Rightarrow>
          (Inl e, UndoCommandGroup_performUndo childs b1, cmd\<lparr>mChilds := childs\<rparr>)
      | (Inr netpoint, (b1, childs)) \<Rightarrow>
          (Inr (length childs > 0), b1, cmd\<lparr>mNetPoint := Some netpoint, mChilds := childs\<rparr>))"


text \<open>
  Modelled from the spec: the entry point \<open>placeNetPoint(board, position, layer)\<close> of the
  editor, whose code is not available: it constructs the command, executes it and returns
  the command's net point.
\<close>

definition placeNetPoint :: "precondition \<Rightarrow> Board \<Rightarrow> Point \<Rightarrow> GraphicsLayerName \<Rightarrow> (error + uuid) \<times> Board" where
  "placeNetPoint chk b pos layer =
     (case CmdPlaceBoardNetPoint_performExecute chk (CmdPlaceBoardNetPoint_new pos layer) b of
        (Inl e, b', cmd) \<Rightarrow> (Inl e, b')
      | (Inr changed, b', cmd) \<Rightarrow>
          (case mNetPoint cmd of
             None \<Rightarrow> (Inl InvariantViolation, b')
           | Some netpoint \<Rightarrow> (Inr netpoint, b')))"

section \<open>Editing the net signal of a net segment\<close>













section \<open>Combining two net segments\<close>

text \<open>
  \<^verbatim>\<open>CmdCombineBoardNetSegments\<close> as \<^verbatim>\<open>cmdcombineboardnetsegments.h\<close> declares it: the
  net segment to be removed and the junction net point, which belongs to the surviving
  segment; the children are those of the group.
\<close>

record CmdCombineBoardNetSegments =
  mNetSegmentToBeRemoved :: uuid
  mJunctionNetPoint :: uuid
  mCombineChilds :: "UndoCommand list"

definition CmdCombineBoardNetSegments_new :: "uuid \<Rightarrow> uuid \<Rightarrow> CmdCombineBoardNetSegments" where
  "CmdCombineBoardNetSegments_new toBeRemoved junction =
     \<lparr>mNetSegmentToBeRemoved = toBeRemoved, mJunctionNetPoint = junction, mCombineChilds = []\<rparr>"

text \<open>
  Modelled from the spec: the children of the combination, whose code is not available:
  the net points and net lines of the segment to be removed are taken out of it and
  re-owned into the surviving segment, then the emptied segment is deleted.
\<close>

definition combine_children :: "Board \<Rightarrow> BI_NetSegment \<Rightarrow> BI_NetSegment \<Rightarrow> UndoCommand list" where
  "combine_children b toBeRemoved survivor =
     (let ps = filter (\<lambda>p. np_netsegment p = seg_uuid toBeRemoved) (netpoints b);
          ls = filter (\<lambda>l. nl_netsegment l = seg_uuid toBeRemoved) (netlines b)
      in [CmdBoardNetSegmentRemoveElements (seg_uuid toBeRemoved) ps ls,
          CmdBoardNetSegmentAddElements (seg_uuid survivor)
            (map (\<lambda>p. p\<lparr>np_netsegment := seg_uuid survivor\<rparr>) ps)
            (map (\<lambda>l. l\<lparr>nl_netsegment := seg_uuid survivor\<rparr>) ls),
          CmdBoardNetSegmentRemove toBeRemoved])"

text \<open>
  Modelled from the spec: the children are executed in order, each as it is appended; the
  first failure stops the execution.
\<close>

fun execChildren :: "precondition \<Rightarrow> UndoCommand list \<Rightarrow> group_state \<Rightarrow> (error + unit) \<times> group_state" where
  "execChildren chk [] st = (Inr (), st)"
| "execChildren chk (cmd # cmds) st =
     (case execNewChildCmd chk cmd st of
        Inl e \<Rightarrow> (Inl e, st)
      | Inr st' \<Rightarrow> execChildren chk cmds st')"

text \<open>
  Modelled from the spec: the part of \<^verbatim>\<open>CmdCombineBoardNetSegments::performExecute\<close> that
  the rollback guard protects, whose code is not available. The two net segments must be
  distinct and bound to the same net signal (\<open>NetSignalMismatch\<close> otherwise), which is
  checked before the first child is executed.
\<close>

definition CmdCombineBoardNetSegments_body :: "precondition \<Rightarrow> CmdCombineBoardNetSegments \<Rightarrow> Board \<Rightarrow> (error + unit) \<times> group_state" where
  "CmdCombineBoardNetSegments_body chk cmd b =
     (case getNetSegmentByUuid b (mNetSegmentToBeRemoved cmd) of
        None \<Rightarrow> (Inl InvalidPrecondition, (b, mCombineChilds cmd))
      | Some toBeRemoved \<Rightarrow>
          (case getNetPointByUuid b (mJunctionNetPoint cmd) of
             None \<Rightarrow> (Inl InvalidPrecondition, (b, mCombineChilds cmd))
           | Some junction \<Rightarrow>
               (case getNetSegmentByUuid b (np_netsegment junction) of
                  None \<Rightarrow> (Inl InvalidPrecondition, (b, mCombineChilds cmd))
                | Some survivor \<Rightarrow>
                    if seg_uuid toBeRemoved = seg_uuid survivor
                    then (Inl InvalidPrecondition, (b, mCombineChilds cmd))
                    else if seg_netsignal toBeRemoved \<noteq> seg_netsignal survivor
                    then (Inl NetSignalMismatch, (b, mCombineChilds cmd))
                    else execChildren chk (combine_children b toBeRemoved survivor)
                           (b, mCombineChilds cmd))))"

text \<open>
  Modelled from the spec: \<^verbatim>\<open>CmdCombineBoardNetSegments::performExecute\<close>, whose code is
  not available: on a failure the rollback guard undoes the children executed so far.
\<close>

definition CmdCombineBoardNetSegments_performExecute :: "precondition \<Rightarrow> CmdCombineBoardNetSegments \<Rightarrow> Board \<Rightarrow> (error + bool) \<times> Board \<times> CmdCombineBoardNetSegments" where
  "CmdCombineBoardNetSegments_performExecute chk cmd b =
     (case CmdCombineBoardNetSegments_body chk cmd b of
        (Inl e, (b1, childs)) \<Rightarrow>
          (Inl e, UndoCommandGroup_performUndo childs b1, cmd\<lparr>mCombineChilds := childs\<rparr>)
      | (Inr u, (b1, childs)) \<Rightarrow>
          (Inr (length childs > 0), b1, cmd\<lparr>mCombineChilds := childs\<rparr>))"

text \<open>
  Modelled from the spec: the entry point \<open>combineNetSegments(toRemove,
  survivorJunctionPoint)\<close> of the editor, whose code is not available: it constructs the
  command and executes it.
\<close>

definition combineNetSegments :: "precondition \<Rightarrow> Board \<Rightarrow> uuid \<Rightarrow> uuid \<Rightarrow> (error + unit) \<times> Board" where
  "combineNetSegments chk b toRemove survivorJunctionPoint =
     (case CmdCombineBoardNetSegments_performExecute chk
             (CmdCombineBoardNetSegments_new toRemove survivorJunctionPoint) b of
        (Inl e, b', cmd) \<Rightarrow> (Inl e, b')
      | (Inr changed, b', cmd) \<Rightarrow> (Inr (), b'))"

section \<open>The undo stack\<close>

text \<open>
  Modelled from the spec: \<^verbatim>\<open>UndoStack\<close>, whose code is not available: the executed
  commands, the current position, the clean index of the last save, and the flag that a
  command is active.
\<close>

record 'c UndoStack =
  mCmds :: "'c list"
  mCurrentIndex :: nat
  mCleanIndex :: nat
  mCommandActive :: bool

text \<open>
  Modelled from the spec: \<^verbatim>\<open>UndoStack::isClean\<close>, whose code is not available: the
  position equals the clean index.
\<close>

definition isClean :: "'c UndoStack \<Rightarrow> bool" where
  "isClean s \<longleftrightarrow> mCurrentIndex s = mCleanIndex s"

text \<open>
  Modelled from the spec: \<^verbatim>\<open>UndoStack::isCommandActive\<close>, whose code is not available.
\<close>

definition isCommandActive :: "'c UndoStack \<Rightarrow> bool" where
  "isCommandActive s \<longleftrightarrow> mCommandActive s"

text \<open>
  Modelled from the spec: \<^verbatim>\<open>UndoStack::setClean\<close>, whose code is not available: the
  current position becomes the clean index.
\<close>

definition setClean :: "'c UndoStack \<Rightarrow> 'c UndoStack" where
  "setClean s = s\<lparr>mCleanIndex := mCurrentIndex s\<rparr>"

text \<open>
  Modelled from the spec: \<^verbatim>\<open>UndoStack::execCmd\<close>, whose code is not available: it runs
  the command; when the command reports no change the stack is unaffected, otherwise the
  command is appended at the current position and the redo tail is cut off.
\<close>

definition execCmd :: "('c \<Rightarrow> 's \<Rightarrow> (error + bool) \<times> 's \<times> 'c) \<Rightarrow> 'c \<Rightarrow> 'c UndoStack \<Rightarrow> 's \<Rightarrow> (error + unit) \<times> 'c UndoStack \<times> 's" where
  "execCmd run cmd stack st =
     (case run cmd st of
        (Inl e, st', cmd') \<Rightarrow> (Inl e, stack, st')
      | (Inr changed, st', cmd') \<Rightarrow>
          if changed
          then (Inr (),
                stack\<lparr>mCmds := take (mCurrentIndex stack) (mCmds stack) @ [cmd'],
                      mCurrentIndex := Suc (mCurrentIndex stack)\<rparr>, st')
          else (Inr (), stack, st'))"

section \<open>Saving the project\<close>

text \<open>
  \<^verbatim>\<open>Project::save\<close> and \<^verbatim>\<open>Project::autosaveProject\<close> (\<^verbatim>\<open>project.cpp\<close>). The project
  keeps the flags the two functions read, its schematics, the files saved so far (each
  with the \<^verbatim>\<open>toOriginal\<close> flag it was saved with) and the single-shot timers requested.
  Saving a file is done by code that is not available; the parameter \<open>io\<close> gives the
  error message of a save that fails.
\<close>

datatype ProjectFile =
    ProjectXmlFile
  | DescriptionHtmlFile
  | CircuitFile
  | SchematicFile nat
  | SchematicsIniFile
  | ErcMsgListFile

type_synonym filesystem = "ProjectFile \<Rightarrow> bool \<Rightarrow> string option"

record 'c Project =
  mIsRestored :: bool
  mIsReadOnly :: bool
  mProjectIsModified :: bool
  mUndoStack :: "'c UndoStack"
  mSchematics :: "nat list"
  mRemovedSchematics :: "nat list"
  mLastModified :: nat
  mSavedFiles :: "(ProjectFile \<times> bool) list"
  mSingleShots :: "(nat \<times> string) list"

type_synonym 'c save_state = "bool \<times> string list \<times> 'c Project"

text \<open>
  One step of \<^verbatim>\<open>Project::save\<close>: the file is saved, or the save fails, which clears the
  success flag and appends the error message.
\<close>

definition saveFile :: "filesystem \<Rightarrow> bool \<Rightarrow> ProjectFile \<Rightarrow> 'c save_state \<Rightarrow> 'c save_state" where
  "saveFile io toOriginal f st =
     (case st of (success, errors, p) \<Rightarrow>
        (case io f toOriginal of
           None \<Rightarrow> (success, errors, p\<lparr>mSavedFiles := mSavedFiles p @ [(f, toOriginal)]\<rparr>)
         | Some msg \<Rightarrow> (False, errors @ [msg], p)))"

definition save :: "filesystem \<Rightarrow> nat \<Rightarrow> bool \<Rightarrow> string list \<Rightarrow> 'c Project \<Rightarrow> 'c save_state" where
  "save io now toOriginal errors p =
     (if mIsReadOnly p then
        (False, errors @ [''The project was opened in read-only mode.''], p)
      else if isCommandActive (mUndoStack p) then
        (False, errors @ [''A command is active at the moment.''], p)
      else
        (let st1 = saveFile io toOriginal ProjectXmlFile (True, errors, p\<lparr>mLastModified := now\<rparr>);
             st2 = saveFile io toOriginal DescriptionHtmlFile st1;
             st3 = saveFile io toOriginal CircuitFile st2;
             st4 = fold (\<lambda>schematic. saveFile io toOriginal (SchematicFile schematic)) (mSchematics p) st3;
             st5 = fold (\<lambda>schematic. saveFile io toOriginal (SchematicFile schematic)) (mRemovedSchematics p) st4;
             st6 = saveFile io toOriginal SchematicsIniFile st5;
             st7 = saveFile io toOriginal ErcMsgListFile st6
         in case st7 of (success, errors', p') \<Rightarrow>
              if mIsRestored p' \<and> success \<and> toOriginal
              then (success, errors', p'\<lparr>mIsRestored := False\<rparr>)
              else (success, errors', p')))"

definition autosaveProject :: "filesystem \<Rightarrow> nat \<Rightarrow> 'c Project \<Rightarrow> bool \<times> 'c Project" where
  "autosaveProject io now p =
     (if \<not> mIsRestored p \<and> isClean (mUndoStack p) \<and> \<not> mProjectIsModified p then (False, p)
      else if isCommandActive (mUndoStack p) then
        (False, p\<lparr>mSingleShots := mSingleShots p @ [(10000, ''autosave()'')]\<rparr>)
      else
        (case save io now False [] p of
           (success, errors, p') \<Rightarrow> if \<not> success then (False, p') else (True, p')))"

section \<open>Example boards and projects\<close>

text \<open>A check that lets every child command run, and two that make one kind of child throw.\<close>

definition accept_all :: precondition where
  "accept_all cmd b = None"

definition reject_elements :: precondition where
  "reject_elements cmd b =
     (case cmd of
        CmdBoardNetSegmentAddElements seg ps ls \<Rightarrow> Some InvalidPrecondition
      | _ \<Rightarrow> None)"

definition reject_removal :: precondition where
  "reject_removal cmd b =
     (case cmd of
        CmdBoardNetSegmentRemoveElements seg ps ls \<Rightarrow> Some InvalidPrecondition
      | _ \<Rightarrow> None)"


text \<open>An empty board with one pad that carries net signal 7.\<close>

definition board_pad :: Board where
  "board_pad =
     \<lparr>vias = [],
      pads = [\<lparr>pad_uuid = 1, pad_position = (0, 0), pad_layers = [''top_cu''],
               pad_netsignal = Some 7\<rparr>],
      netsegments = [], netpoints = [], netlines = []\<rparr>"

text \<open>One trace of width 5 from (10, 0) to (20, 0).\<close>

definition board_line :: Board where
  "board_line =
     \<lparr>vias = [], pads = [],
      netsegments = [\<lparr>seg_uuid = 1, seg_netsignal = 3\<rparr>],
      netpoints =
        [\<lparr>np_uuid = 1, np_netsegment = 1, np_layer = ''top_cu'', np_position = (10, 0),
          np_pad = None, np_via = None\<rparr>,
         \<lparr>np_uuid = 2, np_netsegment = 1, np_layer = ''top_cu'', np_position = (20, 0),
          np_pad = None, np_via = None\<rparr>],
      netlines =
        [\<lparr>nl_uuid = 1, nl_netsegment = 1, nl_startpoint = 1, nl_endpoint = 2, nl_width = 5\<rparr>]\<rparr>"

text \<open>The same trace after a net point was placed at (15, 0).\<close>

definition board_line_split :: Board where
  "board_line_split =
     \<lparr>vias = [], pads = [],
      netsegments = [\<lparr>seg_uuid = 1, seg_netsignal = 3\<rparr>],
      netpoints =
        [\<lparr>np_uuid = 1, np_netsegment = 1, np_layer = ''top_cu'', np_position = (10, 0),
          np_pad = None, np_via = None\<rparr>,
         \<lparr>np_uuid = 2, np_netsegment = 1, np_layer = ''top_cu'', np_position = (20, 0),
          np_pad = None, np_via = None\<rparr>,
         \<lparr>np_uuid = 3, np_netsegment = 1, np_layer = ''top_cu'', np_position = (15, 0),
          np_pad = None, np_via = None\<rparr>],
      netlines =
        [\<lparr>nl_uuid = 2, nl_netsegment = 1, nl_startpoint = 3, nl_endpoint = 1, nl_width = 5\<rparr>,
         \<lparr>nl_uuid = 3, nl_netsegment = 1, nl_startpoint = 3, nl_endpoint = 2, nl_width = 5\<rparr>]\<rparr>"

text \<open>Two net points on top of each other.\<close>

definition board_two_points :: Board where
  "board_two_points =
     \<lparr>vias = [], pads = [],
      netsegments = [\<lparr>seg_uuid = 1, seg_netsignal = 3\<rparr>],
      netpoints =
        [\<lparr>np_uuid = 1, np_netsegment = 1, np_layer = ''top_cu'', np_position = (0, 0),
          np_pad = None, np_via = None\<rparr>,
         \<lparr>np_uuid = 2, np_netsegment = 1, np_layer = ''top_cu'', np_position = (0, 0),
          np_pad = None, np_via = None\<rparr>],
      netlines = []\<rparr>"

text \<open>One via without a net signal and without net points; two vias on top of each other.\<close>

definition board_via :: Board where
  "board_via =
     \<lparr>vias = [\<lparr>via_uuid = 1, via_position = (0, 0), via_netsignal = None\<rparr>],
      pads = [], netsegments = [], netpoints = [], netlines = []\<rparr>"

definition board_two_vias :: Board where
  "board_two_vias =
     \<lparr>vias = [\<lparr>via_uuid = 1, via_position = (0, 0), via_netsignal = Some 7\<rparr>,
              \<lparr>via_uuid = 2, via_position = (0, 0), via_netsignal = Some 7\<rparr>],
      pads = [], netsegments = [], netpoints = [], netlines = []\<rparr>"

text \<open>Two pads on top of each other; two traces that cross at (5, 5).\<close>

definition board_two_pads :: Board where
  "board_two_pads =
     \<lparr>vias = [],
      pads = [\<lparr>pad_uuid = 1, pad_position = (0, 0), pad_layers = [''top_cu''],
               pad_netsignal = Some 7\<rparr>,
              \<lparr>pad_uuid = 2, pad_position = (0, 0), pad_layers = [''top_cu'', ''bot_cu''],
               pad_netsignal = Some 7\<rparr>],
      netsegments = [], netpoints = [], netlines = []\<rparr>"

definition board_crossing :: Board where
  "board_crossing =
     \<lparr>vias = [], pads = [],
      netsegments = [\<lparr>seg_uuid = 1, seg_netsignal = 3\<rparr>],
      netpoints =
        [\<lparr>np_uuid = 1, np_netsegment = 1, np_layer = ''top_cu'', np_position = (0, 0),
          np_pad = None, np_via = None\<rparr>,
         \<lparr>np_uuid = 2, np_netsegment = 1, np_layer = ''top_cu'', np_position = (10, 10),
          np_pad = None, np_via = None\<rparr>,
         \<lparr>np_uuid = 3, np_netsegment = 1, np_layer = ''top_cu'', np_position = (0, 10),
          np_pad = None, np_via = None\<rparr>,
         \<lparr>np_uuid = 4, np_netsegment = 1, np_layer = ''top_cu'', np_position = (10, 0),
          np_pad = None, np_via = None\<rparr>],
      netlines =
        [\<lparr>nl_uuid = 1, nl_netsegment = 1, nl_startpoint = 1, nl_endpoint = 2, nl_width = 5\<rparr>,
         \<lparr>nl_uuid = 2, nl_netsegment = 1, nl_startpoint = 3, nl_endpoint = 4, nl_width = 5\<rparr>]\<rparr>"

text \<open>Two net segments bound to different net signals, with one net point each.\<close>

definition board_two_nets :: Board where
  "board_two_nets =
     \<lparr>vias = [], pads = [],
      netsegments = [\<lparr>seg_uuid = 1, seg_netsignal = 3\<rparr>, \<lparr>seg_uuid = 2, seg_netsignal = 4\<rparr>],
      netpoints =
        [\<lparr>np_uuid = 1, np_netsegment = 1, np_layer = ''top_cu'', np_position = (0, 0),
          np_pad = None, np_via = None\<rparr>,
         \<lparr>np_uuid = 2, np_netsegment = 2, np_layer = ''top_cu'', np_position = (5, 5),
          np_pad = None, np_via = None\<rparr>],
      netlines = []\<rparr>"

text \<open>
  A project with a command in progress: once without unsaved changes, once modified.
  Every file can be saved.
\<close>

definition project_idle :: "unit Project" where
  "project_idle =
     \<lparr>mIsRestored = False, mIsReadOnly = False, mProjectIsModified = False,
      mUndoStack = \<lparr>mCmds = [], mCurrentIndex = 0, mCleanIndex = 0, mCommandActive = True\<rparr>,
      mSchematics = [1], mRemovedSchematics = [], mLastModified = 0,
      mSavedFiles = [], mSingleShots = []\<rparr>"

definition project_modified :: "unit Project" where
  "project_modified = project_idle\<lparr>mProjectIsModified := True\<rparr>"

definition disk_ok :: filesystem where
  "disk_ok f toOriginal = None"

text \<open>The modified project with no command in progress.\<close>

definition project_quiet :: "unit Project" where
  "project_quiet =
     project_modified
       \<lparr>mUndoStack := \<lparr>mCmds = [], mCurrentIndex = 0, mCleanIndex = 0, mCommandActive = False\<rparr>\<rparr>"

text \<open>
  Two net segments bound to the same net signal: a single net point, and a trace of two
  net points.
\<close>

definition board_same_net :: Board where
  "board_same_net =
     \<lparr>vias = [], pads = [],
      netsegments = [\<lparr>seg_uuid = 1, seg_netsignal = 3\<rparr>, \<lparr>seg_uuid = 2, seg_netsignal = 3\<rparr>],
      netpoints =
        [\<lparr>np_uuid = 1, np_netsegment = 1, np_layer = ''top_cu'', np_position = (0, 0),
          np_pad = None, np_via = None\<rparr>,
         \<lparr>np_uuid = 2, np_netsegment = 2, np_layer = ''top_cu'', np_position = (0, 0),
          np_pad = None, np_via = None\<rparr>,
         \<lparr>np_uuid = 3, np_netsegment = 2, np_layer = ''top_cu'', np_position = (5, 5),
          np_pad = None, np_via = None\<rparr>],
      netlines =
        [\<lparr>nl_uuid = 1, nl_netsegment = 2, nl_startpoint = 2, nl_endpoint = 3, nl_width = 5\<rparr>]\<rparr>"


definition board_crossing_pad :: Board where
  "board_crossing_pad =
     board_crossing
       \<lparr>pads := [\<lparr>pad_uuid = 1, pad_position = (5, 5), pad_layers = [''top_cu''],
                   pad_netsignal = Some 7\<rparr>]\<rparr>"

definition board_two_vias_point :: Board where
  "board_two_vias_point =
     board_two_vias
       \<lparr>netsegments := [\<lparr>seg_uuid = 1, seg_netsignal = 7\<rparr>],
        netpoints := [\<lparr>np_uuid = 1, np_netsegment = 1, np_layer = ''top_cu'',
                       np_position = (0, 0), np_pad = None, np_via = Some 1\<rparr>]\<rparr>"

section \<open>Basic facts\<close>

lemmas placement_defs =
  placeNetPoint_def CmdPlaceBoardNetPoint_performExecute_def performExecute_body_def
  CmdPlaceBoardNetPoint_new_def createNewNetPoint_def createNewNetPointAtPad_def
  createNewNetPointInLine_def createNewNetSegment_def execNewChildCmd_def
  UndoCommand_execute_def UndoCommandGroup_performUndo_def
  cmdAddInLine_def cmdRemoveInLine_def cmdAddAtPad_def
  newNetSegment_def newNetPointAtPad_def newNetPointAtPosition_def newNetLine_def
  addNetSegment_def removeNetSegment_def addElements_def removeElements_def
  getNetPointsAtScenePos_def getViasAtScenePos_def getPadsAtScenePos_def
  getNetLinesAtScenePos_def netline_hit_def getNetPointByUuid_def getNetPointOfLayer_def
  passes_through_def fresh_uuid_def Let_def

lemma fresh_uuid_gt: "u \<in> set us \<Longrightarrow> u < fresh_uuid us"
  by (induction us) (auto simp: fresh_uuid_def)

lemma filter_single_hd:
  assumes "length (filter P xs) = Suc 0"
  shows "P (hd (filter P xs)) \<and> hd (filter P xs) \<in> set xs"
proof -
  from assms obtain x where x: "filter P xs = [x]"
    by (cases "filter P xs") auto
  then have "x \<in> set (filter P xs)" by simp
  then have "P x \<and> x \<in> set xs" by (simp only: set_filter mem_Collect_eq)
  then show ?thesis by (simp add: x)
qed

lemma distinct_remove_by_key:
  assumes "distinct (map f xs)" and "x \<in> set xs"
  shows "set (filter (\<lambda>y. f y \<noteq> f x) xs) = set xs - {x}"
    and "length (filter (\<lambda>y. f y \<noteq> f x) xs) = length xs - 1"
proof -
  from assms have inj: "\<And>y. y \<in> set xs \<Longrightarrow> f y = f x \<longleftrightarrow> y = x"
    by (meson distinct_map inj_onD)
  then show "set (filter (\<lambda>y. f y \<noteq> f x) xs) = set xs - {x}"
    by auto
  from assms show "length (filter (\<lambda>y. f y \<noteq> f x) xs) = length xs - 1"
  proof (induction xs)
    case Nil
    then show ?case by simp
  next
    case (Cons a xs)
    show ?case
    proof (cases "a = x")
      case True
      with Cons.prems have "f x \<notin> f ` set xs" by simp
      then have "\<And>y. y \<in> set xs \<Longrightarrow> f y \<noteq> f x" by (metis imageI)
      then have "filter (\<lambda>y. f y \<noteq> f x) xs = xs" by (simp add: filter_id_conv)
      with True show ?thesis by simp
    next
      case False
      with Cons.prems have x: "x \<in> set xs" and d: "distinct (map f xs)" and "f a \<noteq> f x"
        by auto
      with Cons.IH have "length (filter (\<lambda>y. f y \<noteq> f x) xs) = length xs - 1" by simp
      moreover from x have "length xs > 0" by (cases xs) auto
      ultimately show ?thesis using \<open>f a \<noteq> f x\<close> by simp
    qed
  qed
qed

subsection \<open>Undoing a child that added fresh objects restores the board\<close>

lemma undo_addNetSegment:
  "removeNetSegment (newNetSegment b n) (addNetSegment (newNetSegment b n) b) = b"
proof -
  have "filter (\<lambda>x. seg_uuid x \<noteq> fresh_uuid (map seg_uuid (netsegments b))) (netsegments b) =
      netsegments b"
    using fresh_uuid_gt [of _ "map seg_uuid (netsegments b)"] by (fastforce simp: filter_id_conv)
  then show ?thesis
    by (simp add: removeNetSegment_def addNetSegment_def newNetSegment_def)
qed

lemma undo_addElements:
  assumes "\<And>p. p \<in> set (netpoints b) \<Longrightarrow> np_uuid p \<notin> set (map np_uuid ps)"
      and "\<And>l. l \<in> set (netlines b) \<Longrightarrow> nl_uuid l \<notin> set (map nl_uuid ls)"
  shows "removeElements ps ls (addElements ps ls b) = b"
proof -
  have "filter (\<lambda>x. np_uuid x \<notin> set (map np_uuid ps)) (netpoints b) = netpoints b"
    using assms(1) by (simp add: filter_id_conv)
  moreover have "filter (\<lambda>x. nl_uuid x \<notin> set (map nl_uuid ls)) (netlines b) = netlines b"
    using assms(2) by (simp add: filter_id_conv)
  moreover have "filter (\<lambda>x. np_uuid x \<notin> set (map np_uuid ps)) ps = []"
    by (simp add: filter_empty_conv)
  moreover have "filter (\<lambda>x. nl_uuid x \<notin> set (map nl_uuid ls)) ls = []"
    by (simp add: filter_empty_conv)
  ultimately show ?thesis
    by (simp add: removeElements_def addElements_def)
qed

lemma undo_cmdAddInLine:
  assumes "cmdAddInLine b pos layer l = CmdBoardNetSegmentAddElements seg ps ls"
  shows "removeElements ps ls (addElements ps ls b) = b"
proof (rule undo_addElements)
  fix p assume "p \<in> set (netpoints b)"
  with assms show "np_uuid p \<notin> set (map np_uuid ps)"
    using fresh_uuid_gt [of "np_uuid p" "map np_uuid (netpoints b)"]
    by (auto simp: cmdAddInLine_def Let_def newNetPointAtPosition_def)
next
  fix x assume "x \<in> set (netlines b)"
  with assms show "nl_uuid x \<notin> set (map nl_uuid ls)"
    using fresh_uuid_gt [of "nl_uuid x" "map nl_uuid (netlines b)"]
    by (auto simp: cmdAddInLine_def Let_def newNetLine_def)
qed


lemma addNetSegment_neq: "addNetSegment s b \<noteq> b"
proof
  assume "addNetSegment s b = b"
  then have "netsegments (addNetSegment s b) = netsegments b" by simp
  then show False by (simp add: addNetSegment_def)
qed

lemma addElements_neq: "ps \<noteq> [] \<Longrightarrow> addElements ps ls b \<noteq> b"
proof
  assume "ps \<noteq> []" "addElements ps ls b = b"
  then have "netpoints (addElements ps ls b) = netpoints b" by simp
  with \<open>ps \<noteq> []\<close> show False by (simp add: addElements_def)
qed

section \<open>Rollback of a failed placement\<close>

text \<open>
  What a failing run of each helper leaves behind: no children, or children whose undo in
  reverse order restores the board, the failure being the one a child raised on the
  mutated board.
\<close>

lemma InLine_failure:
  assumes "createNewNetPointInLine chk pos layer (b, []) = (Inl e, (b1, childs))"
  shows "UndoCommandGroup_performUndo childs b1 = b \<and>
         (childs \<noteq> [] \<longrightarrow> b1 \<noteq> b \<and> (\<exists>c. chk c b1 = Some e))"
proof -
  obtain seg ps ls
    where c: "cmdAddInLine b pos layer (hd (getNetLinesAtScenePos b pos layer)) =
                CmdBoardNetSegmentAddElements seg ps ls"
      and ps: "ps \<noteq> []"
    by (simp add: cmdAddInLine_def Let_def)
  show ?thesis
    using assms ps undo_cmdAddInLine [OF c] addElements_neq [OF ps, of ls b]
    by (auto simp: createNewNetPointInLine_def Let_def execNewChildCmd_def UndoCommand_execute_def
        UndoCommandGroup_performUndo_def c cmdRemoveInLine_def
        split: if_splits option.splits)
qed

lemma AtPad_failure:
  assumes "createNewNetPointAtPad chk pos layer (b, []) = (Inl e, (b1, childs))"
  shows "UndoCommandGroup_performUndo childs b1 = b \<and>
         (childs \<noteq> [] \<longrightarrow> b1 \<noteq> b \<and> (\<exists>c. chk c b1 = Some e))"
  using assms InLine_failure [of chk pos layer b e b1 childs]
  by (auto simp: createNewNetPointAtPad_def createNewNetSegment_def Let_def execNewChildCmd_def
      UndoCommand_execute_def UndoCommandGroup_performUndo_def cmdAddAtPad_def
      undo_addNetSegment addNetSegment_neq
      split: if_splits option.splits)

lemma NetPoint_failure:
  assumes "createNewNetPoint chk pos layer (b, []) = (Inl e, (b1, childs))"
  shows "UndoCommandGroup_performUndo childs b1 = b \<and>
         (childs \<noteq> [] \<longrightarrow> b1 \<noteq> b \<and> (\<exists>c. chk c b1 = Some e))"
  using assms AtPad_failure [of chk pos layer b e b1 childs]
  by (auto simp: createNewNetPoint_def Let_def UndoCommandGroup_performUndo_def
      split: if_splits option.splits)

lemma body_failure:
  assumes "performExecute_body chk (CmdPlaceBoardNetPoint_new pos layer) b = (Inl e, (b1, childs))"
  shows "UndoCommandGroup_performUndo childs b1 = b \<and>
         (childs \<noteq> [] \<longrightarrow> b1 \<noteq> b \<and> (\<exists>c. chk c b1 = Some e))"
  using assms NetPoint_failure [of chk pos layer b e b1 childs]
  by (auto simp: performExecute_body_def CmdPlaceBoardNetPoint_new_def Let_def
      UndoCommandGroup_performUndo_def
      split: if_splits)

text \<open>
  Claim C1. Whenever the execution of a placement command fails, the board after the
  failed call is the board before it. The failure that is signalled is the one that
  stopped the body of the command, and the board is reached from the board at the point
  of failure by undoing the children executed so far, last child first. When children
  had been executed, the board at the point of failure did differ from the original one
  and the failure is the exception that a child command raised on it.
\<close>

theorem placement_rollback_atomicity:
  assumes "CmdPlaceBoardNetPoint_performExecute chk (CmdPlaceBoardNetPoint_new pos layer) b =
             (Inl e, b', cmd')"
  shows "b' = b \<and>
         (\<exists>b1. performExecute_body chk (CmdPlaceBoardNetPoint_new pos layer) b =
                  (Inl e, (b1, mChilds cmd')) \<and>
               fold UndoCommand_performUndo (rev (mChilds cmd')) b1 = b \<and>
               (mChilds cmd' \<noteq> [] \<longrightarrow> b1 \<noteq> b \<and> (\<exists>c. chk c b1 = Some e)))"
proof -
  obtain r b1 childs
    where body: "performExecute_body chk (CmdPlaceBoardNetPoint_new pos layer) b = (r, (b1, childs))"
    by (metis surj_pair)
  with assms have r: "r = Inl e" and b': "b' = UndoCommandGroup_performUndo childs b1"
    and c: "mChilds cmd' = childs"
    by (auto simp: CmdPlaceBoardNetPoint_performExecute_def split: sum.splits)
  from body_failure [OF body [unfolded r]] show ?thesis
    using body r b' c by (simp add: UndoCommandGroup_performUndo_def)
qed

text \<open>
  On the board with one pad, the new net segment is added and then the child that adds
  the net point is rejected: the segment is removed again.
\<close>

theorem placement_rollback_atomicity_witness:
  "CmdPlaceBoardNetPoint_performExecute reject_elements
       (CmdPlaceBoardNetPoint_new (0, 0) ''top_cu'') board_pad =
     (Inl InvalidPrecondition, board_pad,
      \<lparr>mPosition = (0, 0), mLayer = ''top_cu'', mNetPoint = None,
       mChilds = [CmdBoardNetSegmentAdd \<lparr>seg_uuid = 1, seg_netsignal = 7\<rparr>]\<rparr>) \<and>
   (\<exists>b1. b1 \<noteq> board_pad \<and>
      performExecute_body reject_elements (CmdPlaceBoardNetPoint_new (0, 0) ''top_cu'') board_pad =
        (Inl InvalidPrecondition, (b1, [CmdBoardNetSegmentAdd \<lparr>seg_uuid = 1, seg_netsignal = 7\<rparr>])) \<and>
      UndoCommand_performUndo (CmdBoardNetSegmentAdd \<lparr>seg_uuid = 1, seg_netsignal = 7\<rparr>) b1 = board_pad)"
proof -
  have run: "CmdPlaceBoardNetPoint_performExecute reject_elements
       (CmdPlaceBoardNetPoint_new (0, 0) ''top_cu'') board_pad =
     (Inl InvalidPrecondition, board_pad,
      \<lparr>mPosition = (0, 0), mLayer = ''top_cu'', mNetPoint = None,
       mChilds = [CmdBoardNetSegmentAdd \<lparr>seg_uuid = 1, seg_netsignal = 7\<rparr>]\<rparr>)"
    by (simp add: placement_defs board_pad_def reject_elements_def)
  from placement_rollback_atomicity [OF run] obtain b1
    where "performExecute_body reject_elements (CmdPlaceBoardNetPoint_new (0, 0) ''top_cu'') board_pad =
        (Inl InvalidPrecondition, (b1, [CmdBoardNetSegmentAdd \<lparr>seg_uuid = 1, seg_netsignal = 7\<rparr>]))"
      and "fold UndoCommand_performUndo
             (rev [CmdBoardNetSegmentAdd \<lparr>seg_uuid = 1, seg_netsignal = 7\<rparr>]) b1 = board_pad"
      and "b1 \<noteq> board_pad"
    by auto
  with run show ?thesis by auto
qed

section \<open>Splitting a trace\<close>

text \<open>
  Claim C3. On a board where no net point, via or pad is at the position and exactly one
  net line \<open>L\<close> passes through it on the layer, and where the two children are not
  rejected, the placement returns a new net point \<open>P\<close> that is at the position, on the
  layer, attached to no pad and no via; \<open>P\<close> is the only net point added. The net line
  \<open>L\<close> is removed and two lines are added, from \<open>P\<close> to the start point of \<open>L\<close> and
  from \<open>P\<close> to its end point, both of the width of \<open>L\<close>, so the board has one net line
  more than before. Net segments, vias and pads are unchanged.
\<close>

theorem mid_trace_split:
  assumes wf: "wf_board b"
      and points: "getNetPointsAtScenePos b pos layer = []"
      and vias: "getViasAtScenePos b pos = []"
      and pads: "getPadsAtScenePos b pos layer = []"
      and lines: "getNetLinesAtScenePos b pos layer = [L]"
      and add_ok: "chk (cmdAddInLine b pos layer L) b = None"
      and remove_ok:
        "chk (cmdRemoveInLine L) (snd (UndoCommand_performExecute (cmdAddInLine b pos layer L) b)) = None"
      and P: "P = newNetPointAtPosition b (nl_netsegment L) layer pos"
      and L1: "L1 = newNetLine (fresh_uuid (map nl_uuid (netlines b))) (nl_netsegment L)
                      (np_uuid P) (nl_startpoint L) (nl_width L)"
      and L2: "L2 = newNetLine (Suc (fresh_uuid (map nl_uuid (netlines b)))) (nl_netsegment L)
                      (np_uuid P) (nl_endpoint L) (nl_width L)"
      and b': "b' = snd (placeNetPoint chk b pos layer)"
  shows "fst (placeNetPoint chk b pos layer) = Inr (np_uuid P) \<and>
         netpoints b' = netpoints b @ [P] \<and> P \<notin> set (netpoints b) \<and>
         np_position P = pos \<and> np_layer P = layer \<and> np_pad P = None \<and> np_via P = None \<and>
         netlines b' = filter (\<lambda>l. nl_uuid l \<noteq> nl_uuid L) (netlines b) @ [L1, L2] \<and>
         set (netlines b') = (set (netlines b) - {L}) \<union> {L1, L2} \<and>
         L \<in> set (netlines b) \<and> L1 \<notin> set (netlines b) \<and> L2 \<notin> set (netlines b) \<and> L1 \<noteq> L2 \<and>
         nl_startpoint L1 = np_uuid P \<and> nl_endpoint L1 = nl_startpoint L \<and> nl_width L1 = nl_width L \<and>
         nl_startpoint L2 = np_uuid P \<and> nl_endpoint L2 = nl_endpoint L \<and> nl_width L2 = nl_width L \<and>
         length (netlines b') = length (netlines b) + 1 \<and>
         netsegments b' = netsegments b \<and> vias b' = vias b \<and> pads b' = pads b"
proof -
  let ?u = "fresh_uuid (map nl_uuid (netlines b))"
  have Lin: "L \<in> set (netlines b)"
  proof -
    have "L \<in> set (getNetLinesAtScenePos b pos layer)" by (simp add: lines)
    then show ?thesis by (simp add: getNetLinesAtScenePos_def)
  qed
  have cmd: "cmdAddInLine b pos layer L = CmdBoardNetSegmentAddElements (nl_netsegment L) [P] [L1, L2]"
    by (simp add: cmdAddInLine_def Let_def P L1 L2)
  have fresh_l: "\<And>l. l \<in> set (netlines b) \<Longrightarrow> nl_uuid l < ?u"
    by (simp add: fresh_uuid_gt)
  have fresh_p: "\<And>p. p \<in> set (netpoints b) \<Longrightarrow> np_uuid p < np_uuid P"
    by (simp add: P newNetPointAtPosition_def fresh_uuid_gt)
  have u1: "nl_uuid L1 = ?u" and u2: "nl_uuid L2 = Suc ?u"
    by (simp_all add: L1 L2 newNetLine_def)
  have res: "placeNetPoint chk b pos layer =
      (Inr (np_uuid P), removeElements [] [L] (addElements [P] [L1, L2] b))"
    using add_ok remove_ok
    by (simp add: placeNetPoint_def CmdPlaceBoardNetPoint_performExecute_def performExecute_body_def
        CmdPlaceBoardNetPoint_new_def createNewNetPoint_def createNewNetPointAtPad_def
        createNewNetPointInLine_def points vias pads lines Let_def execNewChildCmd_def
        UndoCommand_execute_def cmd cmdRemoveInLine_def P [symmetric])
  have keep: "filter (\<lambda>l. nl_uuid l \<noteq> nl_uuid L) [L1, L2] = [L1, L2]"
    using fresh_l [OF Lin] by (simp add: u1 u2)
  have nl: "netlines b' = filter (\<lambda>l. nl_uuid l \<noteq> nl_uuid L) (netlines b) @ [L1, L2]"
    using keep by (simp add: b' res removeElements_def addElements_def)
  have np: "netpoints b' = netpoints b @ [P]"
    by (simp add: b' res removeElements_def addElements_def)
  have d: "distinct (map nl_uuid (netlines b))"
    using wf by (simp add: wf_board_def)
  have notin1: "L1 \<notin> set (netlines b)" using fresh_l [of L1] u1 by auto
  have notin2: "L2 \<notin> set (netlines b)" using fresh_l [of L2] u2 by auto
  have Pnotin: "P \<notin> set (netpoints b)" using fresh_p [of P] by auto
  have neq: "L1 \<noteq> L2" using u1 u2 by auto
  have len: "length (netlines b') = length (netlines b) + 1"
  proof -
    from Lin have "length (netlines b) > 0" by (cases "netlines b") auto
    then show ?thesis
      by (simp add: nl distinct_remove_by_key(2) [OF d Lin])
  qed
  have st: "set (netlines b') = (set (netlines b) - {L}) \<union> {L1, L2}"
  proof -
    have "set (netlines b') = set (filter (\<lambda>l. nl_uuid l \<noteq> nl_uuid L) (netlines b)) \<union> {L1, L2}"
      by (simp add: nl)
    then show ?thesis
      by (simp only: distinct_remove_by_key(1) [OF d Lin])
  qed
  have rest: "netsegments b' = netsegments b \<and> vias b' = vias b \<and> pads b' = pads b"
    by (simp add: b' res removeElements_def addElements_def)
  have attrs: "np_position P = pos \<and> np_layer P = layer \<and> np_pad P = None \<and> np_via P = None"
    by (simp add: P newNetPointAtPosition_def)
  have w: "nl_startpoint L1 = np_uuid P \<and> nl_endpoint L1 = nl_startpoint L \<and> nl_width L1 = nl_width L \<and>
           nl_startpoint L2 = np_uuid P \<and> nl_endpoint L2 = nl_endpoint L \<and> nl_width L2 = nl_width L"
    by (simp add: L1 L2 newNetLine_def)
  show ?thesis
    using res np Pnotin attrs nl st Lin notin1 notin2 neq w len rest by simp
qed

text \<open>The trace from (10, 0) to (20, 0) is split at its midpoint (15, 0).\<close>

theorem mid_trace_split_witness:
  "wf_board board_line \<and>
   getNetPointsAtScenePos board_line (15, 0) ''top_cu'' = [] \<and>
   getViasAtScenePos board_line (15, 0) = [] \<and>
   getPadsAtScenePos board_line (15, 0) ''top_cu'' = [] \<and>
   getNetLinesAtScenePos board_line (15, 0) ''top_cu'' =
     [\<lparr>nl_uuid = 1, nl_netsegment = 1, nl_startpoint = 1, nl_endpoint = 2, nl_width = 5\<rparr>] \<and>
   fst (placeNetPoint accept_all board_line (15, 0) ''top_cu'') = Inr 3 \<and>
   snd (placeNetPoint accept_all board_line (15, 0) ''top_cu'') = board_line_split \<and>
   length (netlines (snd (placeNetPoint accept_all board_line (15, 0) ''top_cu''))) = 2"
proof -
  let ?L = "\<lparr>nl_uuid = 1, nl_netsegment = 1, nl_startpoint = 1, nl_endpoint = 2, nl_width = 5\<rparr>"
  have wf: "wf_board board_line"
    by (simp add: wf_board_def board_line_def)
  have points: "getNetPointsAtScenePos board_line (15, 0) ''top_cu'' = []"
    by (simp add: getNetPointsAtScenePos_def board_line_def)
  have vias: "getViasAtScenePos board_line (15, 0) = []"
    by (simp add: getViasAtScenePos_def board_line_def)
  have pads: "getPadsAtScenePos board_line (15, 0) ''top_cu'' = []"
    by (simp add: getPadsAtScenePos_def board_line_def)
  have lines: "getNetLinesAtScenePos board_line (15, 0) ''top_cu'' = [?L]"
    by (simp add: getNetLinesAtScenePos_def netline_hit_def getNetPointByUuid_def
        passes_through_def board_line_def)
  have add_ok: "accept_all (cmdAddInLine board_line (15, 0) ''top_cu'' ?L) board_line = None"
    by (simp add: accept_all_def)
  have remove_ok: "accept_all (cmdRemoveInLine ?L)
      (snd (UndoCommand_performExecute (cmdAddInLine board_line (15, 0) ''top_cu'' ?L) board_line)) = None"
    by (simp add: accept_all_def)
  have board: "snd (placeNetPoint accept_all board_line (15, 0) ''top_cu'') = board_line_split"
    by (simp add: placement_defs board_line_def board_line_split_def accept_all_def)
  note split = mid_trace_split [OF wf points vias pads lines add_ok remove_ok refl refl refl refl]
  from split
  have "fst (placeNetPoint accept_all board_line (15, 0) ''top_cu'') =
          Inr (np_uuid (newNetPointAtPosition board_line (nl_netsegment ?L) ''top_cu'' (15, 0)))"
    by (elim conjE)
  moreover from split
  have "length (netlines (snd (placeNetPoint accept_all board_line (15, 0) ''top_cu''))) =
          length (netlines board_line) + 1"
    by (elim conjE)
  ultimately
  have "fst (placeNetPoint accept_all board_line (15, 0) ''top_cu'') = Inr 3"
    and "length (netlines (snd (placeNetPoint accept_all board_line (15, 0) ''top_cu''))) = 2"
    by (simp_all add: newNetPointAtPosition_def fresh_uuid_def board_line_def)
  with wf points vias pads lines board show ?thesis by simp
qed

section \<open>Placement at a pad\<close>

text \<open>
  Claim C5. On a board where no net point and no via is at the position and exactly one
  pad is at the position on the layer, with net signal \<open>N\<close>, and where the two children
  are not rejected, the placement adds exactly one net segment \<open>S\<close>, which is bound to
  \<open>N\<close> and whose uuid no segment of the board has, and exactly one net point \<open>P\<close>, which
  belongs to \<open>S\<close>, is attached to the pad, lies at the position on the layer and has a
  uuid no net point of the board has; it returns \<open>P\<close>. Nothing else changes. This holds
  in particular when no net segment of signal \<open>N\<close> touches the pad yet.
\<close>

theorem pad_placement:
  assumes points: "getNetPointsAtScenePos b pos layer = []"
      and vias: "getViasAtScenePos b pos = []"
      and pads: "getPadsAtScenePos b pos layer = [pad]"
      and signal: "pad_netsignal pad = Some N"
      and S: "S = newNetSegment b N"
      and P: "P = newNetPointAtPad (addNetSegment S b) (seg_uuid S) layer pad"
      and segment_ok: "chk (CmdBoardNetSegmentAdd S) b = None"
      and point_ok: "chk (cmdAddAtPad (addNetSegment S b) S layer pad) (addNetSegment S b) = None"
  shows "placeNetPoint chk b pos layer =
           (Inr (np_uuid P), b\<lparr>netsegments := netsegments b @ [S], netpoints := netpoints b @ [P]\<rparr>) \<and>
         seg_netsignal S = N \<and> seg_uuid S \<notin> set (map seg_uuid (netsegments b)) \<and>
         np_uuid P \<notin> set (map np_uuid (netpoints b)) \<and>
         np_netsegment P = seg_uuid S \<and> np_pad P = Some (pad_uuid pad) \<and> np_via P = None \<and>
         np_position P = pos \<and> np_layer P = layer"
proof -
  have res: "placeNetPoint chk b pos layer =
      (Inr (np_uuid P), addElements [P] [] (addNetSegment S b))"
    using segment_ok point_ok
    by (simp add: placeNetPoint_def CmdPlaceBoardNetPoint_performExecute_def performExecute_body_def
        CmdPlaceBoardNetPoint_new_def createNewNetPoint_def createNewNetPointAtPad_def
        createNewNetSegment_def points vias pads signal Let_def execNewChildCmd_def
        UndoCommand_execute_def cmdAddAtPad_def S [symmetric] P [symmetric])
  have board: "addElements [P] [] (addNetSegment S b) =
      b\<lparr>netsegments := netsegments b @ [S], netpoints := netpoints b @ [P]\<rparr>"
    by (simp add: addElements_def addNetSegment_def)
  have "pad \<in> set (getPadsAtScenePos b pos layer)" by (simp add: pads)
  then have at: "pad_position pad = pos" by (simp add: getPadsAtScenePos_def)
  have s: "seg_uuid S \<notin> set (map seg_uuid (netsegments b))"
    using fresh_uuid_gt [of "seg_uuid S" "map seg_uuid (netsegments b)"]
    by (auto simp: S newNetSegment_def)
  have p: "np_uuid P \<notin> set (map np_uuid (netpoints b))"
    using fresh_uuid_gt [of "np_uuid P" "map np_uuid (netpoints b)"]
    by (auto simp: P newNetPointAtPad_def addNetSegment_def)
  show ?thesis
    using res board at s p by (simp add: S P newNetSegment_def newNetPointAtPad_def)
qed

text \<open>The empty board with one pad of net signal 7.\<close>

theorem pad_placement_witness:
  "getNetPointsAtScenePos board_pad (0, 0) ''top_cu'' = [] \<and>
   getViasAtScenePos board_pad (0, 0) = [] \<and>
   getPadsAtScenePos board_pad (0, 0) ''top_cu'' =
     [\<lparr>pad_uuid = 1, pad_position = (0, 0), pad_layers = [''top_cu''], pad_netsignal = Some 7\<rparr>] \<and>
   placeNetPoint accept_all board_pad (0, 0) ''top_cu'' =
     (Inr 1,
      board_pad
        \<lparr>netsegments := [\<lparr>seg_uuid = 1, seg_netsignal = 7\<rparr>],
         netpoints := [\<lparr>np_uuid = 1, np_netsegment = 1, np_layer = ''top_cu'',
                        np_position = (0, 0), np_pad = Some 1, np_via = None\<rparr>]\<rparr>)"
proof -
  let ?pad = "\<lparr>pad_uuid = 1, pad_position = (0, 0), pad_layers = [''top_cu''], pad_netsignal = Some 7\<rparr>"
  have points: "getNetPointsAtScenePos board_pad (0, 0) ''top_cu'' = []"
    by (simp add: getNetPointsAtScenePos_def board_pad_def)
  have vias: "getViasAtScenePos board_pad (0, 0) = []"
    by (simp add: getViasAtScenePos_def board_pad_def)
  have pads: "getPadsAtScenePos board_pad (0, 0) ''top_cu'' = [?pad]"
    by (simp add: getPadsAtScenePos_def board_pad_def)
  have signal: "pad_netsignal ?pad = Some 7"
    by simp
  from pad_placement [OF points vias pads signal refl refl, of accept_all]
  have "placeNetPoint accept_all board_pad (0, 0) ''top_cu'' =
     (Inr 1,
      board_pad
        \<lparr>netsegments := [\<lparr>seg_uuid = 1, seg_netsignal = 7\<rparr>],
         netpoints := [\<lparr>np_uuid = 1, np_netsegment = 1, np_layer = ''top_cu'',
                        np_position = (0, 0), np_pad = Some 1, np_via = None\<rparr>]\<rparr>)"
    by (simp add: accept_all_def newNetSegment_def newNetPointAtPad_def addNetSegment_def
        fresh_uuid_def board_pad_def)
  with points vias pads show ?thesis by simp
qed

section \<open>Ambiguous configurations\<close>

text \<open>
  Claim C8, as the source has it. The placement looks at the net points, then the vias,
  then the pads, then the net lines, and stops at the first kind of which it finds one.
  When no net point is at the position and two or more vias are, or no via either and two
  or more pads are, or no pad either and two or more net lines are, it fails with the
  not-implemented error and the board is unchanged, whatever the child commands would do.
\<close>

theorem ambiguous_configuration_fails:
  assumes "getNetPointsAtScenePos b pos layer = []"
      and "2 \<le> length (getViasAtScenePos b pos) \<or>
           getViasAtScenePos b pos = [] \<and> 2 \<le> length (getPadsAtScenePos b pos layer) \<or>
           getViasAtScenePos b pos = [] \<and> getPadsAtScenePos b pos layer = [] \<and>
             2 \<le> length (getNetLinesAtScenePos b pos layer)"
  shows "placeNetPoint chk b pos layer = (Inl NotImplemented, b)"
  using assms
  by (auto simp: placeNetPoint_def CmdPlaceBoardNetPoint_performExecute_def performExecute_body_def
      CmdPlaceBoardNetPoint_new_def createNewNetPoint_def createNewNetPointAtPad_def
      createNewNetPointInLine_def Let_def UndoCommandGroup_performUndo_def)

text \<open>Two overlapping vias, two overlapping pads, two crossing traces.\<close>

theorem ambiguous_configuration_fails_witness:
  "getNetPointsAtScenePos board_two_vias (0, 0) ''top_cu'' = [] \<and>
   length (getViasAtScenePos board_two_vias (0, 0)) = 2 \<and>
   placeNetPoint accept_all board_two_vias (0, 0) ''top_cu'' = (Inl NotImplemented, board_two_vias) \<and>
   getNetPointsAtScenePos board_two_pads (0, 0) ''top_cu'' = [] \<and>
   getViasAtScenePos board_two_pads (0, 0) = [] \<and>
   length (getPadsAtScenePos board_two_pads (0, 0) ''top_cu'') = 2 \<and>
   placeNetPoint accept_all board_two_pads (0, 0) ''top_cu'' = (Inl NotImplemented, board_two_pads) \<and>
   getNetPointsAtScenePos board_crossing (5, 5) ''top_cu'' = [] \<and>
   getViasAtScenePos board_crossing (5, 5) = [] \<and>
   getPadsAtScenePos board_crossing (5, 5) ''top_cu'' = [] \<and>
   length (getNetLinesAtScenePos board_crossing (5, 5) ''top_cu'') = 2 \<and>
   placeNetPoint accept_all board_crossing (5, 5) ''top_cu'' = (Inl NotImplemented, board_crossing)"
proof -
  have v: "getNetPointsAtScenePos board_two_vias (0, 0) ''top_cu'' = []"
      "length (getViasAtScenePos board_two_vias (0, 0)) = 2"
    by (simp_all add: getNetPointsAtScenePos_def getViasAtScenePos_def board_two_vias_def)
  have p: "getNetPointsAtScenePos board_two_pads (0, 0) ''top_cu'' = []"
      "getViasAtScenePos board_two_pads (0, 0) = []"
      "length (getPadsAtScenePos board_two_pads (0, 0) ''top_cu'') = 2"
    by (simp_all add: getNetPointsAtScenePos_def getViasAtScenePos_def getPadsAtScenePos_def
        board_two_pads_def)
  have l: "getNetPointsAtScenePos board_crossing (5, 5) ''top_cu'' = []"
      "getViasAtScenePos board_crossing (5, 5) = []"
      "getPadsAtScenePos board_crossing (5, 5) ''top_cu'' = []"
      "length (getNetLinesAtScenePos board_crossing (5, 5) ''top_cu'') = 2"
    by (simp_all add: getNetPointsAtScenePos_def getViasAtScenePos_def getPadsAtScenePos_def
        getNetLinesAtScenePos_def netline_hit_def getNetPointByUuid_def passes_through_def
        board_crossing_def)
  have "placeNetPoint accept_all board_two_vias (0, 0) ''top_cu'' = (Inl NotImplemented, board_two_vias)"
    by (rule ambiguous_configuration_fails) (simp_all add: v)
  moreover
  have "placeNetPoint accept_all board_two_pads (0, 0) ''top_cu'' = (Inl NotImplemented, board_two_pads)"
    by (rule ambiguous_configuration_fails) (simp_all add: p)
  moreover
  have "placeNetPoint accept_all board_crossing (5, 5) ''top_cu'' = (Inl NotImplemented, board_crossing)"
    by (rule ambiguous_configuration_fails) (simp_all add: l)
  ultimately show ?thesis using v p l by simp
qed

text \<open>
  The claim as stated fails: two traces cross at a position where a pad is too, and the
  placement does not fail but creates a net point at the pad, in a new net segment; two
  vias lie at a position where a net point is too, and the placement returns that net
  point.
\<close>

theorem ambiguous_configuration_counterexample:
  "length (getNetLinesAtScenePos board_crossing_pad (5, 5) ''top_cu'') = 2 \<and>
   placeNetPoint accept_all board_crossing_pad (5, 5) ''top_cu'' =
     (Inr 5,
      board_crossing_pad
        \<lparr>netsegments := [\<lparr>seg_uuid = 1, seg_netsignal = 3\<rparr>, \<lparr>seg_uuid = 2, seg_netsignal = 7\<rparr>],
         netpoints := netpoints board_crossing_pad @
           [\<lparr>np_uuid = 5, np_netsegment = 2, np_layer = ''top_cu'', np_position = (5, 5),
             np_pad = Some 1, np_via = None\<rparr>]\<rparr>) \<and>
   snd (placeNetPoint accept_all board_crossing_pad (5, 5) ''top_cu'') \<noteq> board_crossing_pad \<and>
   length (getViasAtScenePos board_two_vias_point (0, 0)) = 2 \<and>
   placeNetPoint accept_all board_two_vias_point (0, 0) ''top_cu'' = (Inr 1, board_two_vias_point)"
proof -
  have lines: "length (getNetLinesAtScenePos board_crossing_pad (5, 5) ''top_cu'') = 2"
    by (simp add: getNetLinesAtScenePos_def netline_hit_def getNetPointByUuid_def passes_through_def
        board_crossing_pad_def board_crossing_def)
  have placed: "placeNetPoint accept_all board_crossing_pad (5, 5) ''top_cu'' =
     (Inr 5,
      board_crossing_pad
        \<lparr>netsegments := [\<lparr>seg_uuid = 1, seg_netsignal = 3\<rparr>, \<lparr>seg_uuid = 2, seg_netsignal = 7\<rparr>],
         netpoints := netpoints board_crossing_pad @
           [\<lparr>np_uuid = 5, np_netsegment = 2, np_layer = ''top_cu'', np_position = (5, 5),
             np_pad = Some 1, np_via = None\<rparr>]\<rparr>)"
    by (simp add: placement_defs board_crossing_pad_def board_crossing_def accept_all_def)
  have changed: "snd (placeNetPoint accept_all board_crossing_pad (5, 5) ''top_cu'') \<noteq> board_crossing_pad"
  proof
    assume "snd (placeNetPoint accept_all board_crossing_pad (5, 5) ''top_cu'') = board_crossing_pad"
    then have "netsegments (snd (placeNetPoint accept_all board_crossing_pad (5, 5) ''top_cu'')) =
        netsegments board_crossing_pad"
      by simp
    then have "[\<lparr>seg_uuid = 1, seg_netsignal = 3\<rparr>, \<lparr>seg_uuid = 2, seg_netsignal = 7\<rparr>] =
        netsegments board_crossing_pad"
      by (simp add: placed)
    then show False
      by (simp add: board_crossing_pad_def board_crossing_def)
  qed
  have vias: "length (getViasAtScenePos board_two_vias_point (0, 0)) = 2"
    by (simp add: getViasAtScenePos_def board_two_vias_point_def board_two_vias_def)
  have reused: "placeNetPoint accept_all board_two_vias_point (0, 0) ''top_cu'' = (Inr 1, board_two_vias_point)"
    by (simp add: placement_defs board_two_vias_point_def board_two_vias_def accept_all_def)
  from lines placed changed vias reused show ?thesis by simp
qed

section \<open>Reusing an existing net point\<close>

lemma place_reuse:
  assumes "getNetPointsAtScenePos b pos layer = [p]"
  shows "CmdPlaceBoardNetPoint_performExecute chk (CmdPlaceBoardNetPoint_new pos layer) b =
           (Inr False, b, (CmdPlaceBoardNetPoint_new pos layer)\<lparr>mNetPoint := Some (np_uuid p)\<rparr>)"
  using assms
  by (simp add: CmdPlaceBoardNetPoint_performExecute_def performExecute_body_def
      CmdPlaceBoardNetPoint_new_def)

lemma place_many_points:
  assumes "2 \<le> length (getNetPointsAtScenePos b pos layer)"
  shows "placeNetPoint chk b pos layer = (Inl NotImplemented, b)"
  using assms
  by (auto simp: placeNetPoint_def CmdPlaceBoardNetPoint_performExecute_def performExecute_body_def
      CmdPlaceBoardNetPoint_new_def Let_def UndoCommandGroup_performUndo_def)

text \<open>A placement that creates a net point appends it to the net points, at the position.\<close>

lemma InLine_success:
  assumes "createNewNetPointInLine chk pos layer (b, []) = (Inr q, (b', childs))"
  shows "\<exists>P. netpoints b' = netpoints b @ [P] \<and> np_uuid P = q \<and>
             np_position P = pos \<and> np_layer P = layer"
  using assms
  by (auto simp: createNewNetPointInLine_def Let_def execNewChildCmd_def UndoCommand_execute_def
      cmdAddInLine_def cmdRemoveInLine_def addElements_def removeElements_def
      newNetPointAtPosition_def
      split: if_splits option.splits)

lemma AtPad_success:
  assumes "createNewNetPointAtPad chk pos layer (b, []) = (Inr q, (b', childs))"
  shows "\<exists>P. netpoints b' = netpoints b @ [P] \<and> np_uuid P = q \<and>
             np_position P = pos \<and> np_layer P = layer"
proof (cases "length (getPadsAtScenePos b pos layer) = Suc 0")
  case True
  from filter_single_hd [OF True [unfolded getPadsAtScenePos_def]]
  have "pad_position (hd (getPadsAtScenePos b pos layer)) = pos"
    by (simp add: getPadsAtScenePos_def)
  with True assms show ?thesis
    by (auto simp: createNewNetPointAtPad_def createNewNetSegment_def Let_def execNewChildCmd_def
        UndoCommand_execute_def cmdAddAtPad_def addElements_def addNetSegment_def
        newNetPointAtPad_def
        split: if_splits option.splits)
next
  case False
  with assms InLine_success [of chk pos layer b q b' childs] show ?thesis
    by (auto simp: createNewNetPointAtPad_def Let_def split: if_splits)
qed

lemma place_success_cases:
  assumes "placeNetPoint chk b pos layer = (Inr q, b')"
  shows "b' = b \<or>
         getNetPointsAtScenePos b pos layer = [] \<and>
         (\<exists>P. netpoints b' = netpoints b @ [P] \<and> np_uuid P = q \<and>
              np_position P = pos \<and> np_layer P = layer)"
proof -
  obtain r b1 childs where body:
    "performExecute_body chk (CmdPlaceBoardNetPoint_new pos layer) b = (r, (b1, childs))"
    by (metis surj_pair)
  with assms have r: "r = Inr q" and b1: "b1 = b'"
    by (auto simp: placeNetPoint_def CmdPlaceBoardNetPoint_performExecute_def split: sum.splits)
  show ?thesis
  proof (cases "length (getNetPointsAtScenePos b pos layer) = 0 \<and>
                length (getViasAtScenePos b pos) = 0")
    case True
    with body r b1 have "createNewNetPointAtPad chk pos layer (b, []) = (Inr q, (b', childs))"
      by (simp add: performExecute_body_def createNewNetPoint_def CmdPlaceBoardNetPoint_new_def)
    from AtPad_success [OF this] True show ?thesis by simp
  next
    case False
    with body r b1 show ?thesis
      by (auto simp: performExecute_body_def createNewNetPoint_def CmdPlaceBoardNetPoint_new_def
          Let_def split: if_splits option.splits)
  qed
qed

text \<open>
  Claim C7, as the source has it. When exactly one net point is at the position on the
  layer, the placement returns it and leaves the board as it is; when two or more are
  there, it fails with the not-implemented error and leaves the board as it is. After any
  successful placement, a second placement at the same position and layer returns the same
  net point and changes nothing.
\<close>

theorem placement_reuse_idempotent:
  "(getNetPointsAtScenePos b pos layer = [p] \<longrightarrow>
      placeNetPoint chk b pos layer = (Inr (np_uuid p), b)) \<and>
   (2 \<le> length (getNetPointsAtScenePos b pos layer) \<longrightarrow>
      placeNetPoint chk b pos layer = (Inl NotImplemented, b)) \<and>
   (placeNetPoint chk b pos layer = (Inr q, b') \<longrightarrow>
      placeNetPoint chk b' pos layer = (Inr q, b'))"
proof (intro conjI impI)
  assume "getNetPointsAtScenePos b pos layer = [p]"
  from place_reuse [OF this, of chk] show "placeNetPoint chk b pos layer = (Inr (np_uuid p), b)"
    by (simp add: placeNetPoint_def)
next
  assume "2 \<le> length (getNetPointsAtScenePos b pos layer)"
  then show "placeNetPoint chk b pos layer = (Inl NotImplemented, b)"
    by (rule place_many_points)
next
  assume first: "placeNetPoint chk b pos layer = (Inr q, b')"
  from place_success_cases [OF first] show "placeNetPoint chk b' pos layer = (Inr q, b')"
  proof
    assume "b' = b"
    with first show ?thesis by simp
  next
    assume "getNetPointsAtScenePos b pos layer = [] \<and>
      (\<exists>P. netpoints b' = netpoints b @ [P] \<and> np_uuid P = q \<and>
           np_position P = pos \<and> np_layer P = layer)"
    then obtain P where "getNetPointsAtScenePos b pos layer = []"
      and "netpoints b' = netpoints b @ [P]" "np_uuid P = q"
      and "np_position P = pos" "np_layer P = layer"
      by blast
    then have "getNetPointsAtScenePos b' pos layer = [P]"
      by (simp add: getNetPointsAtScenePos_def)
    from place_reuse [OF this, of chk] show ?thesis
      using \<open>np_uuid P = q\<close> by (simp add: placeNetPoint_def)
  qed
qed

text \<open>
  The end point (10, 0) of the trace is reused; two stacked net points are refused; the
  point placed at the midpoint of the trace is found again by a second placement.
\<close>

theorem placement_reuse_idempotent_witness:
  "getNetPointsAtScenePos board_line (10, 0) ''top_cu'' =
     [\<lparr>np_uuid = 1, np_netsegment = 1, np_layer = ''top_cu'', np_position = (10, 0),
       np_pad = None, np_via = None\<rparr>] \<and>
   placeNetPoint accept_all board_line (10, 0) ''top_cu'' = (Inr 1, board_line) \<and>
   length (getNetPointsAtScenePos board_two_points (0, 0) ''top_cu'') = 2 \<and>
   placeNetPoint reject_removal board_two_points (0, 0) ''top_cu'' =
     (Inl NotImplemented, board_two_points) \<and>
   placeNetPoint accept_all board_line (15, 0) ''top_cu'' = (Inr 3, board_line_split) \<and>
   placeNetPoint accept_all board_line_split (15, 0) ''top_cu'' = (Inr 3, board_line_split)"
proof -
  let ?p = "\<lparr>np_uuid = 1, np_netsegment = 1, np_layer = ''top_cu'', np_position = (10, 0),
             np_pad = None, np_via = None\<rparr>"
  have one: "getNetPointsAtScenePos board_line (10, 0) ''top_cu'' = [?p]"
    by (simp add: getNetPointsAtScenePos_def board_line_def)
  have two: "length (getNetPointsAtScenePos board_two_points (0, 0) ''top_cu'') = 2"
    by (simp add: getNetPointsAtScenePos_def board_two_points_def)
  have first: "placeNetPoint accept_all board_line (15, 0) ''top_cu'' = (Inr 3, board_line_split)"
    by (simp add: placement_defs board_line_def board_line_split_def accept_all_def)
  have "placeNetPoint accept_all board_line (10, 0) ''top_cu'' = (Inr (np_uuid ?p), board_line)"
    using placement_reuse_idempotent [of board_line "(10, 0)" "''top_cu''" ?p accept_all] one
    by blast
  moreover
  have "placeNetPoint reject_removal board_two_points (0, 0) ''top_cu'' =
      (Inl NotImplemented, board_two_points)"
    using placement_reuse_idempotent [of board_two_points "(0, 0)" "''top_cu''" _ reject_removal] two
    by simp
  moreover
  have "placeNetPoint accept_all board_line_split (15, 0) ''top_cu'' = (Inr 3, board_line_split)"
    using placement_reuse_idempotent [of board_line "(15, 0)" "''top_cu''" _ accept_all 3 board_line_split]
      first
    by blast
  ultimately show ?thesis using one two first by simp
qed

text \<open>
  The claim as stated fails: net points do occupy the position, and the placement does
  not return the first of them but fails.
\<close>

theorem placement_reuse_counterexample:
  "getNetPointsAtScenePos board_two_points (0, 0) ''top_cu'' \<noteq> [] \<and>
   fst (placeNetPoint accept_all board_two_points (0, 0) ''top_cu'') \<noteq>
     Inr (np_uuid (hd (getNetPointsAtScenePos board_two_points (0, 0) ''top_cu''))) \<and>
   placeNetPoint accept_all board_two_points (0, 0) ''top_cu'' =
     (Inl NotImplemented, board_two_points)"
  by (simp add: placement_defs board_two_points_def accept_all_def)

section \<open>Reporting no change\<close>

text \<open>
  Claim C10. A successful execution of a newly constructed placement command reports a
  change exactly when it has children afterwards, that is, when at least one child was
  appended. When one net point is at the position on the layer, the command has no
  children, reports no change and leaves the board as it is, and the undo stack that
  executes it is left as it was: the command is not recorded.
\<close>

theorem placement_no_change_reporting:
  "(CmdPlaceBoardNetPoint_performExecute chk (CmdPlaceBoardNetPoint_new pos layer) b =
      (Inr changed, b', cmd') \<longrightarrow>
      changed = (mChilds cmd' \<noteq> [])) \<and>
   (getNetPointsAtScenePos b pos layer = [p] \<longrightarrow>
      CmdPlaceBoardNetPoint_performExecute chk (CmdPlaceBoardNetPoint_new pos layer) b =
        (Inr False, b, (CmdPlaceBoardNetPoint_new pos layer)\<lparr>mNetPoint := Some (np_uuid p)\<rparr>) \<and>
      mChilds ((CmdPlaceBoardNetPoint_new pos layer)\<lparr>mNetPoint := Some (np_uuid p)\<rparr>) = [] \<and>
      execCmd (CmdPlaceBoardNetPoint_performExecute chk) (CmdPlaceBoardNetPoint_new pos layer) stack b =
        (Inr (), stack, b))"
proof (intro conjI impI)
  assume "CmdPlaceBoardNetPoint_performExecute chk (CmdPlaceBoardNetPoint_new pos layer) b =
      (Inr changed, b', cmd')"
  then show "changed = (mChilds cmd' \<noteq> [])"
    by (auto simp: CmdPlaceBoardNetPoint_performExecute_def split: prod.splits sum.splits)
next
  assume "getNetPointsAtScenePos b pos layer = [p]"
  from place_reuse [OF this, of chk]
  show "CmdPlaceBoardNetPoint_performExecute chk (CmdPlaceBoardNetPoint_new pos layer) b =
        (Inr False, b, (CmdPlaceBoardNetPoint_new pos layer)\<lparr>mNetPoint := Some (np_uuid p)\<rparr>)" .
next
  show "mChilds ((CmdPlaceBoardNetPoint_new pos layer)\<lparr>mNetPoint := Some (np_uuid p)\<rparr>) = []"
    by (simp add: CmdPlaceBoardNetPoint_new_def)
next
  assume "getNetPointsAtScenePos b pos layer = [p]"
  from place_reuse [OF this, of chk]
  show "execCmd (CmdPlaceBoardNetPoint_performExecute chk) (CmdPlaceBoardNetPoint_new pos layer) stack b =
        (Inr (), stack, b)"
    by (simp add: execCmd_def)
qed

text \<open>
  Placing at the end point (10, 0) of the trace reuses it and is not recorded; placing
  at the midpoint reports a change and has two children.
\<close>

theorem placement_no_change_reporting_witness:
  "getNetPointsAtScenePos board_line (10, 0) ''top_cu'' =
     [\<lparr>np_uuid = 1, np_netsegment = 1, np_layer = ''top_cu'', np_position = (10, 0),
       np_pad = None, np_via = None\<rparr>] \<and>
   CmdPlaceBoardNetPoint_performExecute accept_all (CmdPlaceBoardNetPoint_new (10, 0) ''top_cu'') board_line =
     (Inr False, board_line,
      \<lparr>mPosition = (10, 0), mLayer = ''top_cu'', mNetPoint = Some 1, mChilds = []\<rparr>) \<and>
   execCmd (CmdPlaceBoardNetPoint_performExecute accept_all) (CmdPlaceBoardNetPoint_new (10, 0) ''top_cu'')
       \<lparr>mCmds = [], mCurrentIndex = 0, mCleanIndex = 0, mCommandActive = False\<rparr> board_line =
     (Inr (), \<lparr>mCmds = [], mCurrentIndex = 0, mCleanIndex = 0, mCommandActive = False\<rparr>, board_line) \<and>
   fst (CmdPlaceBoardNetPoint_performExecute accept_all (CmdPlaceBoardNetPoint_new (15, 0) ''top_cu'')
          board_line) = Inr True \<and>
   length (mChilds (snd (snd (CmdPlaceBoardNetPoint_performExecute accept_all
          (CmdPlaceBoardNetPoint_new (15, 0) ''top_cu'') board_line)))) = 2"
proof -
  let ?p = "\<lparr>np_uuid = 1, np_netsegment = 1, np_layer = ''top_cu'', np_position = (10, 0),
             np_pad = None, np_via = None\<rparr>"
  let ?stack = "\<lparr>mCmds = [], mCurrentIndex = 0, mCleanIndex = 0, mCommandActive = False\<rparr>
                  :: CmdPlaceBoardNetPoint UndoStack"
  have one: "getNetPointsAtScenePos board_line (10, 0) ''top_cu'' = [?p]"
    by (simp add: getNetPointsAtScenePos_def board_line_def)
  note inst = placement_no_change_reporting
    [of accept_all "(10, 0)" "''top_cu''" board_line _ _ _ ?p ?stack]
  from inst one
  have "CmdPlaceBoardNetPoint_performExecute accept_all (CmdPlaceBoardNetPoint_new (10, 0) ''top_cu'') board_line =
      (Inr False, board_line, (CmdPlaceBoardNetPoint_new (10, 0) ''top_cu'')\<lparr>mNetPoint := Some (np_uuid ?p)\<rparr>)"
    and "execCmd (CmdPlaceBoardNetPoint_performExecute accept_all)
      (CmdPlaceBoardNetPoint_new (10, 0) ''top_cu'') ?stack board_line = (Inr (), ?stack, board_line)"
    by blast+
  moreover
  have "fst (CmdPlaceBoardNetPoint_performExecute accept_all (CmdPlaceBoardNetPoint_new (15, 0) ''top_cu'')
          board_line) = Inr True"
    and "length (mChilds (snd (snd (CmdPlaceBoardNetPoint_performExecute accept_all
          (CmdPlaceBoardNetPoint_new (15, 0) ''top_cu'') board_line)))) = 2"
    by (simp_all add: placement_defs board_line_def accept_all_def)
  ultimately show ?thesis using one by (simp add: CmdPlaceBoardNetPoint_new_def)
qed

section \<open>Execute followed by undo\<close>

subsection \<open>The net segment edit command\<close>





subsection \<open>The placement command\<close>









section \<open>Combining net segments of different net signals\<close>

text \<open>
  Claim C4. When the segment to be removed and the segment of the junction net point are
  distinct and bound to different net signals, combining them fails with
  \<open>NetSignalMismatch\<close> and the board is the board before. The failure is raised with no
  child executed (the children of the command are still empty and the board untouched
  at that point), whatever the child commands would do.
\<close>

theorem combine_netsignal_mismatch:
  assumes "getNetSegmentByUuid b toRemove = Some S2"
      and "getNetPointByUuid b junction = Some J"
      and "getNetSegmentByUuid b (np_netsegment J) = Some S1"
      and "seg_uuid S1 \<noteq> seg_uuid S2"
      and "seg_netsignal S1 \<noteq> seg_netsignal S2"
  shows "combineNetSegments chk b toRemove junction = (Inl NetSignalMismatch, b) \<and>
         CmdCombineBoardNetSegments_body chk (CmdCombineBoardNetSegments_new toRemove junction) b =
           (Inl NetSignalMismatch, (b, []))"
  using assms
  by (auto simp: combineNetSegments_def CmdCombineBoardNetSegments_performExecute_def
      CmdCombineBoardNetSegments_body_def CmdCombineBoardNetSegments_new_def
      UndoCommandGroup_performUndo_def)

text \<open>Segment 2 (net signal 4) is to be combined into segment 1 (net signal 3).\<close>

theorem combine_netsignal_mismatch_witness:
  "getNetSegmentByUuid board_two_nets 2 = Some \<lparr>seg_uuid = 2, seg_netsignal = 4\<rparr> \<and>
   getNetPointByUuid board_two_nets 1 =
     Some \<lparr>np_uuid = 1, np_netsegment = 1, np_layer = ''top_cu'', np_position = (0, 0),
           np_pad = None, np_via = None\<rparr> \<and>
   getNetSegmentByUuid board_two_nets 1 = Some \<lparr>seg_uuid = 1, seg_netsignal = 3\<rparr> \<and>
   combineNetSegments accept_all board_two_nets 2 1 = (Inl NetSignalMismatch, board_two_nets)"
proof -
  let ?J = "\<lparr>np_uuid = 1, np_netsegment = 1, np_layer = ''top_cu'', np_position = (0, 0),
             np_pad = None, np_via = None\<rparr>"
  have s2: "getNetSegmentByUuid board_two_nets 2 = Some \<lparr>seg_uuid = 2, seg_netsignal = 4\<rparr>"
    by (simp add: getNetSegmentByUuid_def board_two_nets_def)
  have j: "getNetPointByUuid board_two_nets 1 = Some ?J"
    by (simp add: getNetPointByUuid_def board_two_nets_def)
  have s1: "getNetSegmentByUuid board_two_nets (np_netsegment ?J) = Some \<lparr>seg_uuid = 1, seg_netsignal = 3\<rparr>"
    by (simp add: getNetSegmentByUuid_def board_two_nets_def)
  from combine_netsignal_mismatch [OF s2 j s1, of accept_all]
  have "combineNetSegments accept_all board_two_nets 2 1 = (Inl NetSignalMismatch, board_two_nets)"
    by simp
  with s2 j s1 show ?thesis by simp
qed

section \<open>A via without a net point on the layer\<close>

text \<open>
  Claim C6 does not hold of the source. When no net point is at the position on the layer
  and exactly one via is there that exposes no net point on the layer, the placement
  leaves the board as it is, but it does not fail with the error of a via without net
  signal: control runs off the end of \<^verbatim>\<open>createNewNetPoint\<close> without a result, whether
  the via has a net signal or not.
\<close>

theorem via_placement_no_result:
  assumes "getNetPointsAtScenePos b pos layer = []"
      and "getViasAtScenePos b pos = [via]"
      and "getNetPointOfLayer b via layer = None"
  shows "placeNetPoint chk b pos layer = (Inl NoReturnValue, b) \<and>
         fst (placeNetPoint chk b pos layer) \<noteq> Inl NoNetSignal"
  using assms
  by (simp add: placeNetPoint_def CmdPlaceBoardNetPoint_performExecute_def performExecute_body_def
      CmdPlaceBoardNetPoint_new_def createNewNetPoint_def UndoCommandGroup_performUndo_def)

text \<open>The board with one via that has no net signal and no net points.\<close>

theorem via_placement_no_result_witness:
  "getNetPointsAtScenePos board_via (0, 0) ''top_cu'' = [] \<and>
   getViasAtScenePos board_via (0, 0) =
     [\<lparr>via_uuid = 1, via_position = (0, 0), via_netsignal = None\<rparr>] \<and>
   getNetPointOfLayer board_via \<lparr>via_uuid = 1, via_position = (0, 0), via_netsignal = None\<rparr>
     ''top_cu'' = None \<and>
   placeNetPoint accept_all board_via (0, 0) ''top_cu'' = (Inl NoReturnValue, board_via)"
proof -
  have p: "getNetPointsAtScenePos board_via (0, 0) ''top_cu'' = []"
    by (simp add: getNetPointsAtScenePos_def board_via_def)
  have v: "getViasAtScenePos board_via (0, 0) =
      [\<lparr>via_uuid = 1, via_position = (0, 0), via_netsignal = None\<rparr>]"
    by (simp add: getViasAtScenePos_def board_via_def)
  have n: "getNetPointOfLayer board_via \<lparr>via_uuid = 1, via_position = (0, 0), via_netsignal = None\<rparr>
      ''top_cu'' = None"
    by (simp add: getNetPointOfLayer_def board_via_def)
  from via_placement_no_result [OF p v n, of accept_all] p v n show ?thesis by simp
qed

section \<open>Autosave while a command is active\<close>

text \<open>
  Claim C9, as the source has it. While a command is active, \<open>autosaveProject\<close> returns
  false and saves no file. It requests a single-shot timer of 10 seconds for the slot
  \<^verbatim>\<open>autosave()\<close> only when there is something to save (the project was restored, the
  undo stack is not clean or the project is modified); without unsaved changes it returns
  at once and requests nothing. \<open>save\<close> returns false, appends one error message and
  leaves the project, and with it the saved files, as they are.
\<close>

theorem autosave_deferral:
  assumes "isCommandActive (mUndoStack p)"
  shows "fst (autosaveProject io now p) = False \<and>
         mSavedFiles (snd (autosaveProject io now p)) = mSavedFiles p \<and>
         snd (autosaveProject io now p) =
           (if \<not> mIsRestored p \<and> isClean (mUndoStack p) \<and> \<not> mProjectIsModified p then p
            else p\<lparr>mSingleShots := mSingleShots p @ [(10000, ''autosave()'')]\<rparr>) \<and>
         save io now toOriginal errors p =
           (False,
            errors @ [if mIsReadOnly p then ''The project was opened in read-only mode.''
                      else ''A command is active at the moment.''],
            p)"
  using assms by (simp add: autosaveProject_def save_def)

text \<open>The modified project with a command in progress.\<close>

theorem autosave_deferral_witness:
  "isCommandActive (mUndoStack project_modified) \<and>
   autosaveProject disk_ok 0 project_modified =
     (False, project_modified\<lparr>mSingleShots := [(10000, ''autosave()'')]\<rparr>) \<and>
   save disk_ok 0 False [] project_modified =
     (False, [''A command is active at the moment.''], project_modified)"
proof -
  have active: "isCommandActive (mUndoStack project_modified)"
    by (simp add: isCommandActive_def project_modified_def project_idle_def)
  from autosave_deferral [OF active, of disk_ok 0 False "[]"]
  have "fst (autosaveProject disk_ok 0 project_modified) = False"
    and "snd (autosaveProject disk_ok 0 project_modified) =
           project_modified\<lparr>mSingleShots := [(10000, ''autosave()'')]\<rparr>"
    and "save disk_ok 0 False [] project_modified =
           (False, [''A command is active at the moment.''], project_modified)"
    by (simp_all add: project_modified_def project_idle_def)
  with active show ?thesis by (simp add: prod_eq_iff)
qed

text \<open>
  The claim as stated fails: a command is active, and the autosave of the project without
  unsaved changes returns without requesting a timer.
\<close>

theorem autosave_deferral_counterexample:
  "isCommandActive (mUndoStack project_idle) \<and>
   autosaveProject disk_ok 0 project_idle = (False, project_idle) \<and>
   mSingleShots (snd (autosaveProject disk_ok 0 project_idle)) = []"
  by (simp add: autosaveProject_def isCommandActive_def isClean_def project_idle_def)

section \<open>The modelled parts at work\<close>

text \<open>
  With no command active and every file writable, \<open>save\<close> writes the project file, the
  description, the circuit, the schematics, the list of schematics and the ERC messages,
  and the autosave succeeds.
\<close>

lemma save_when_idle:
  "save disk_ok 5 True [] project_quiet =
     (True, [],
      project_quiet
        \<lparr>mLastModified := 5,
         mSavedFiles := [(ProjectXmlFile, True), (DescriptionHtmlFile, True), (CircuitFile, True),
                         (SchematicFile 1, True), (SchematicsIniFile, True), (ErcMsgListFile, True)]\<rparr>) \<and>
   fst (autosaveProject disk_ok 5 project_quiet) = True \<and>
   map snd (mSavedFiles (snd (autosaveProject disk_ok 5 project_quiet))) =
     [False, False, False, False, False, False]"
  by (simp add: save_def autosaveProject_def saveFile_def isCommandActive_def isClean_def
      disk_ok_def project_quiet_def project_modified_def project_idle_def)

text \<open>
  Two net segments of the same net signal are combined: the surviving segment takes over
  the net points and the net line of the other, which leaves the board; the numbers of
  net points and net lines do not change.
\<close>

lemma combine_same_net:
  "combineNetSegments accept_all board_same_net 2 1 =
     (Inr (),
      \<lparr>vias = [], pads = [],
       netsegments = [\<lparr>seg_uuid = 1, seg_netsignal = 3\<rparr>],
       netpoints =
         [\<lparr>np_uuid = 1, np_netsegment = 1, np_layer = ''top_cu'', np_position = (0, 0),
           np_pad = None, np_via = None\<rparr>,
          \<lparr>np_uuid = 2, np_netsegment = 1, np_layer = ''top_cu'', np_position = (0, 0),
           np_pad = None, np_via = None\<rparr>,
          \<lparr>np_uuid = 3, np_netsegment = 1, np_layer = ''top_cu'', np_position = (5, 5),
           np_pad = None, np_via = None\<rparr>],
       netlines =
         [\<lparr>nl_uuid = 1, nl_netsegment = 1, nl_startpoint = 2, nl_endpoint = 3, nl_width = 5\<rparr>]\<rparr>)"
  by (simp add: combineNetSegments_def CmdCombineBoardNetSegments_performExecute_def
      CmdCombineBoardNetSegments_body_def CmdCombineBoardNetSegments_new_def combine_children_def
      getNetSegmentByUuid_def getNetPointByUuid_def execNewChildCmd_def UndoCommand_execute_def
      addNetSegment_def removeNetSegment_def addElements_def removeElements_def
      accept_all_def board_same_net_def Let_def)

text \<open>
  When the last child of the combination fails, the two children before it are undone,
  the last one first, and the board has the net segments, net points and net lines it
  had before.
\<close>

lemma combine_rollback:
  "fst (combineNetSegments
          (\<lambda>cmd b. case cmd of CmdBoardNetSegmentRemove s \<Rightarrow> Some InvalidPrecondition | _ \<Rightarrow> None)
          board_same_net 2 1) = Inl InvalidPrecondition \<and>
   same_graph
     (snd (combineNetSegments
          (\<lambda>cmd b. case cmd of CmdBoardNetSegmentRemove s \<Rightarrow> Some InvalidPrecondition | _ \<Rightarrow> None)
          board_same_net 2 1))
     board_same_net"
  by (simp add: combineNetSegments_def CmdCombineBoardNetSegments_performExecute_def
      CmdCombineBoardNetSegments_body_def CmdCombineBoardNetSegments_new_def combine_children_def
      getNetSegmentByUuid_def getNetPointByUuid_def execNewChildCmd_def UndoCommand_execute_def
      UndoCommandGroup_performUndo_def
      addNetSegment_def removeNetSegment_def addElements_def removeElements_def
      board_same_net_def Let_def same_graph_def insert_commute)

end
